theory Spec2Isabelle
  imports Main "HOL-Library.AList"
begin

text \<open>
  The module \<^verbatim>\<open>plugins/modules/virt.py\<close> as functions of HOL: the classes
  \<^verbatim>\<open>LibvirtConnection\<close> and \<^verbatim>\<open>Virt\<close> and the function \<^verbatim>\<open>core\<close>, over a state that holds
  the hypervisor, the connection of the \<^verbatim>\<open>Virt\<close> object and a log of every driver event.
  Exceptions and \<^verbatim>\<open>fail_json\<close> are values; the libvirt bindings are a parameter.
\<close>

section \<open>Module constants (virt.py, lines 164-193)\<close>

definition VIRT_FAILED :: nat where "VIRT_FAILED = 1"
definition VIRT_SUCCESS :: nat where "VIRT_SUCCESS = 0"
definition VIRT_UNAVAILABLE :: nat where "VIRT_UNAVAILABLE = 2"

definition VM_COMMANDS :: "string list" where
  "VM_COMMANDS = [''create'', ''define'', ''destroy'', ''get_xml'', ''pause'', ''shutdown'',
                  ''status'', ''start'', ''stop'', ''undefine'', ''unpause'']"

definition HOST_COMMANDS :: "string list" where
  "HOST_COMMANDS = [''freemem'', ''info'', ''list_vms'', ''nodeinfo'', ''virttype'']"

definition ALL_COMMANDS :: "string list" where
  "ALL_COMMANDS = VM_COMMANDS @ HOST_COMMANDS"

definition VIRT_STATE_NAME_MAP :: "(int \<times> string) list" where
  "VIRT_STATE_NAME_MAP =
     [(0, ''running''), (1, ''running''), (2, ''running''), (3, ''paused''),
      (4, ''shutdown''), (5, ''shutdown''), (6, ''crashed'')]"

definition ENTRY_UNDEFINE_FLAGS_MAP :: "(string \<times> nat) list" where
  "ENTRY_UNDEFINE_FLAGS_MAP =
     [(''managed_save'', 1), (''snapshots_metadata'', 2), (''nvram'', 4),
      (''keep_nvram'', 8), (''checkpoints_metadata'', 16)]"

definition ALL_FLAGS :: "string list" where
  "ALL_FLAGS = map fst ENTRY_UNDEFINE_FLAGS_MAP"

text \<open>\<^verbatim>\<open>libvirt.VIR_DOMAIN_XML_INACTIVE\<close>, the value the libvirt bindings give it.\<close>

definition VIR_DOMAIN_XML_INACTIVE :: nat where "VIR_DOMAIN_XML_INACTIVE = 2"

text \<open>Python's \<^verbatim>\<open>d.get(k, default)\<close> on a dictionary kept as an association list.\<close>

definition dict_get :: "('k \<times> 'v) list \<Rightarrow> 'k \<Rightarrow> 'v \<Rightarrow> 'v" where
  "dict_get m k dflt = (case map_of m k of None \<Rightarrow> dflt | Some v \<Rightarrow> v)"

section \<open>Python values, exceptions and strings\<close>

text \<open>\<open>VConn c\<close> is the \<^verbatim>\<open>LibvirtConnection\<close> object of connection number \<open>c\<close>.\<close>

datatype val =
    VNone
  | VBool bool
  | VInt int
  | VStr string
  | VList "val list"
  | VDict "(string \<times> val) list"
  | VConn nat

type_synonym pydict = "(string \<times> val) list"

text \<open>
  Everything that ends a call early.  \<open>FailJson\<close> is \<^verbatim>\<open>module.fail_json\<close>: it leaves the
  process, so no \<^verbatim>\<open>except\<close> clause of the module catches it.  \<open>PyException\<close> is a plain
  \<^verbatim>\<open>Exception(msg)\<close>.
\<close>

datatype exn =
    FailJson string
  | VMNotFound string
  | LibvirtError int string
  | ValueError string
  | AttributeError string
  | TypeError string
  | PyException string

fun is_Exception :: "exn \<Rightarrow> bool" where
  "is_Exception (FailJson _) = False"
| "is_Exception _ = True"

fun is_VMNotFound :: "exn \<Rightarrow> bool" where
  "is_VMNotFound (VMNotFound _) = True"
| "is_VMNotFound _ = False"

fun is_libvirtError :: "exn \<Rightarrow> bool" where
  "is_libvirtError (LibvirtError _ _) = True"
| "is_libvirtError _ = False"

text \<open>Truthiness of an optional string parameter (\<^verbatim>\<open>if state:\<close>, \<^verbatim>\<open>if not guest:\<close>).\<close>

fun truthy :: "string option \<Rightarrow> bool" where
  "truthy None = False"
| "truthy (Some s) = (s \<noteq> [])"

definition starts_with :: "string \<Rightarrow> string \<Rightarrow> bool" where
  "starts_with p s = (take (length p) s = p)"

text \<open>\<^verbatim>\<open>p in s\<close> for strings.\<close>

fun str_in :: "string \<Rightarrow> string \<Rightarrow> bool" where
  "str_in p [] = (p = [])"
| "str_in p (c # cs) = (starts_with p (c # cs) \<or> str_in p cs)"

text \<open>\<^verbatim>\<open>str(i)\<close> for an integer.\<close>

fun digits :: "nat \<Rightarrow> string" where
  "digits n = (if n < 10 then [char_of (48 + n)]
               else digits (n div 10) @ [char_of (48 + n mod 10)])"

definition str_int :: "int \<Rightarrow> string" where
  "str_int i = (if i < 0 then CHR ''-'' # digits (nat (- i)) else digits (nat i))"

subsection \<open>\<^verbatim>\<open>re.search('<name>(.*)</name>', xml).groups()[0]\<close>\<close>

text \<open>
  The pattern matches at the leftmost position where \<^verbatim>\<open><name>\<close> starts and a
  \<^verbatim>\<open></name>\<close> follows on the same line (\<^verbatim>\<open>.\<close> matches every character but the
  newline); the group is greedy, so it runs to the last \<^verbatim>\<open></name>\<close> of that line.
  \<open>None\<close> is the \<^verbatim>\<open>None\<close> of \<^verbatim>\<open>re.search\<close>.
\<close>

definition greedy_group :: "string \<Rightarrow> string option" where
  "greedy_group line =
     (case filter (\<lambda>k. starts_with ''</name>'' (drop k line)) (rev [0..<Suc (length line)]) of
        [] \<Rightarrow> None
      | k # _ \<Rightarrow> Some (take k line))"

fun re_search_name :: "string \<Rightarrow> string option" where
  "re_search_name [] = None"
| "re_search_name (c # cs) =
     (if starts_with ''<name>'' (c # cs) then
        (case greedy_group (takeWhile (\<lambda>x. x \<noteq> CHR 0x0A) (drop 6 (c # cs))) of
           Some g \<Rightarrow> Some g
         | None \<Rightarrow> re_search_name cs)
      else re_search_name cs)"

section \<open>The hypervisor driver (the libvirt bindings)\<close>

text \<open>
  libvirt is not part of the module, so it is a parameter: a record of functions over a
  hypervisor state \<open>'w\<close> and domain handles \<open>'d\<close>.  A failing call raises
  \<^verbatim>\<open>libvirtError\<close>, given by its error code and message.  Queries read the hypervisor
  state; the other calls also return the state they leave behind.  \<^verbatim>\<open>vm.name()\<close> reads
  the handle only.

  The last field belongs to the Python interpreter, the other thing the module does not
  define: for a name that a \<^verbatim>\<open>Virt\<close> object carries without the class body or
  \<^verbatim>\<open>__init__\<close> giving it (\<^verbatim>\<open>__class__\<close>, \<^verbatim>\<open>__repr__\<close>, \<^verbatim>\<open>__doc__\<close>, ...), the outcome of
  \<^verbatim>\<open>getattr(v, name)()\<close>; \<open>None\<close> for a name the object does not carry.
\<close>

type_synonym lverr = "int \<times> string"

datatype open_kind = OpenDefault | OpenAuth string | OpenUri string

type_synonym dominfo = "int \<times> int \<times> int \<times> int \<times> int"

type_synonym nodeinfo = "string \<times> int \<times> int \<times> int \<times> int \<times> int \<times> int \<times> int"

record ('w, 'd) driver =
  drv_uname_r :: "'w \<Rightarrow> string"
  drv_open :: "'w \<Rightarrow> open_kind \<Rightarrow> lverr + bool"
  drv_listAllDomains :: "'w \<Rightarrow> lverr + 'd list"
  drv_lookupByName :: "'w \<Rightarrow> string \<Rightarrow> lverr + 'd"
  drv_name :: "'d \<Rightarrow> string"
  drv_info :: "'w \<Rightarrow> 'd \<Rightarrow> lverr + dominfo"
  drv_XMLDesc :: "'w \<Rightarrow> 'd \<Rightarrow> nat \<Rightarrow> lverr + string"
  drv_autostart :: "'w \<Rightarrow> 'd \<Rightarrow> lverr + bool"
  drv_setAutostart :: "'w \<Rightarrow> 'd \<Rightarrow> bool \<Rightarrow> (lverr + int) \<times> 'w"
  drv_create :: "'w \<Rightarrow> 'd \<Rightarrow> (lverr + int) \<times> 'w"
  drv_destroy :: "'w \<Rightarrow> 'd \<Rightarrow> (lverr + int) \<times> 'w"
  drv_shutdown :: "'w \<Rightarrow> 'd \<Rightarrow> (lverr + int) \<times> 'w"
  drv_suspend :: "'w \<Rightarrow> 'd \<Rightarrow> (lverr + int) \<times> 'w"
  drv_resume :: "'w \<Rightarrow> 'd \<Rightarrow> (lverr + int) \<times> 'w"
  drv_undefineFlags :: "'w \<Rightarrow> 'd \<Rightarrow> nat \<Rightarrow> (lverr + int) \<times> 'w"
  drv_defineXML :: "'w \<Rightarrow> string \<Rightarrow> (lverr + 'd) \<times> 'w"
  drv_getInfo :: "'w \<Rightarrow> lverr + nodeinfo"
  drv_getType :: "'w \<Rightarrow> lverr + string"
  drv_getFreeMemory :: "'w \<Rightarrow> lverr + int"
  py_object_call :: "string \<Rightarrow> (exn + val) option"

text \<open>The calls the module issues, as they are logged.\<close>

datatype 'd call =
    ListAllDomains
  | LookupByName string
  | Info 'd
  | XMLDesc 'd nat
  | Autostart 'd
  | SetAutostart 'd bool
  | Create 'd
  | Destroy 'd
  | Shutdown 'd
  | Suspend 'd
  | Resume 'd
  | UndefineFlags 'd nat
  | DefineXML string
  | GetInfo
  | GetType
  | GetFreeMemory

text \<open>
  \<open>Connect k ok\<close> is an attempt to open a connection and whether it gave one;
  \<open>Call c x\<close> is the call \<open>x\<close> issued on (a handle of) connection number \<open>c\<close>.
\<close>

datatype 'd event = Connect open_kind bool | Call nat "'d call"

fun mutating :: "'d call \<Rightarrow> bool" where
  "mutating (SetAutostart _ _) = True"
| "mutating (Create _) = True"
| "mutating (Destroy _) = True"
| "mutating (Shutdown _) = True"
| "mutating (Suspend _) = True"
| "mutating (Resume _) = True"
| "mutating (UndefineFlags _ _) = True"
| "mutating (DefineXML _) = True"
| "mutating _ = False"

fun calls_of :: "'d event list \<Rightarrow> 'd call list" where
  "calls_of [] = []"
| "calls_of (Connect _ _ # es) = calls_of es"
| "calls_of (Call _ x # es) = x # calls_of es"

definition mutations :: "'d event list \<Rightarrow> 'd call list" where
  "mutations es = filter mutating (calls_of es)"

section \<open>State and exceptions of one invocation\<close>

text \<open>
  \<open>world\<close> is the hypervisor, \<open>conn\<close> the attribute \<^verbatim>\<open>self.conn\<close> of the \<^verbatim>\<open>Virt\<close> object
  (the number of the connection it holds, \<open>None\<close> before the first assignment), \<open>nconn\<close>
  the number of connections opened so far, \<open>trace\<close> the log of driver events in the
  order they happen, \<open>warnings\<close> what \<^verbatim>\<open>module.warn\<close> received.
\<close>

record ('w, 'd) vstate =
  world :: 'w
  conn :: "nat option"
  nconn :: nat
  trace :: "'d event list"
  warnings :: "string list"

type_synonym ('w, 'd, 'a) virt_m = "('w, 'd) vstate \<Rightarrow> (exn + 'a) \<times> ('w, 'd) vstate"

definition return :: "'a \<Rightarrow> ('w, 'd, 'a) virt_m" where
  "return x = (\<lambda>s. (Inr x, s))"

definition raise :: "exn \<Rightarrow> ('w, 'd, 'a) virt_m" where
  "raise e = (\<lambda>s. (Inl e, s))"

definition fail_json :: "string \<Rightarrow> ('w, 'd, 'a) virt_m" where
  "fail_json msg = raise (FailJson msg)"

definition bind :: "('w, 'd, 'a) virt_m \<Rightarrow> ('a \<Rightarrow> ('w, 'd, 'b) virt_m) \<Rightarrow> ('w, 'd, 'b) virt_m" where
  "bind m f = (\<lambda>s. case m s of (Inl e, s') \<Rightarrow> (Inl e, s') | (Inr x, s') \<Rightarrow> f x s')"

text \<open>\<^verbatim>\<open>try: m except <p> as e: h e\<close>\<close>

definition try_except ::
  "('w, 'd, 'a) virt_m \<Rightarrow> (exn \<Rightarrow> bool) \<Rightarrow> (exn \<Rightarrow> ('w, 'd, 'a) virt_m) \<Rightarrow> ('w, 'd, 'a) virt_m" where
  "try_except m p h =
     (\<lambda>s. case m s of
            (Inl e, s') \<Rightarrow> if p e then h e s' else (Inl e, s')
          | (Inr x, s') \<Rightarrow> (Inr x, s'))"

definition warn :: "string \<Rightarrow> ('w, 'd, unit) virt_m" where
  "warn msg = (\<lambda>s. (Inr (), s\<lparr>warnings := warnings s @ [msg]\<rparr>))"

text \<open>A query on connection \<open>c\<close>: logged, then answered from the hypervisor state.\<close>

definition query :: "nat \<Rightarrow> 'd call \<Rightarrow> ('w \<Rightarrow> lverr + 'a) \<Rightarrow> ('w, 'd, 'a) virt_m" where
  "query c x f =
     (\<lambda>s. let s' = s\<lparr>trace := trace s @ [Call c x]\<rparr> in
          case f (world s) of
            Inl (code, msg) \<Rightarrow> (Inl (LibvirtError code msg), s')
          | Inr r \<Rightarrow> (Inr r, s'))"

text \<open>A call that may change the hypervisor.\<close>

definition command :: "nat \<Rightarrow> 'd call \<Rightarrow> ('w \<Rightarrow> (lverr + 'a) \<times> 'w) \<Rightarrow> ('w, 'd, 'a) virt_m" where
  "command c x f =
     (\<lambda>s. let (r, w') = f (world s);
              s' = s\<lparr>world := w', trace := trace s @ [Call c x]\<rparr> in
          case r of
            Inl (code, msg) \<Rightarrow> (Inl (LibvirtError code msg), s')
          | Inr v \<Rightarrow> (Inr v, s'))"

section \<open>class LibvirtConnection (lines 200-300)\<close>

text \<open>
  \<^verbatim>\<open>__init__\<close>: the kind of connection is chosen from the output of \<^verbatim>\<open>uname -r\<close> and
  the URI; a false connection object raises \<^verbatim>\<open>Exception("hypervisor connection failure")\<close>.
  The result is the number of the new connection.
\<close>

definition open_kind_for :: "string \<Rightarrow> string \<Rightarrow> open_kind" where
  "open_kind_for stdout uri =
     (if str_in ''xen'' stdout then OpenDefault
      else if str_in ''esx'' uri then OpenAuth uri
      else OpenUri uri)"

definition LibvirtConnection_init :: "('w, 'd) driver \<Rightarrow> string \<Rightarrow> ('w, 'd, nat) virt_m" where
  "LibvirtConnection_init d uri =
     (\<lambda>s. let stdout = drv_uname_r d (world s);
              k = open_kind_for stdout uri in
          case drv_open d (world s) k of
            Inl (code, msg) \<Rightarrow>
              (Inl (LibvirtError code msg), s\<lparr>trace := trace s @ [Connect k False]\<rparr>)
          | Inr False \<Rightarrow>
              (Inl (PyException ''hypervisor connection failure''),
               s\<lparr>trace := trace s @ [Connect k False]\<rparr>)
          | Inr True \<Rightarrow>
              (Inr (Suc (nconn s)),
               s\<lparr>nconn := Suc (nconn s), trace := trace s @ [Connect k True]\<rparr>))"

text \<open>\<^verbatim>\<open>find_vm(-1)\<close>: the list of everything.\<close>

definition LibvirtConnection_find_vm_all :: "('w, 'd) driver \<Rightarrow> nat \<Rightarrow> ('w, 'd, 'd list) virt_m" where
  "LibvirtConnection_find_vm_all d c = query c ListAllDomains (drv_listAllDomains d)"

definition LibvirtConnection_find_vm :: "('w, 'd) driver \<Rightarrow> nat \<Rightarrow> string \<Rightarrow> ('w, 'd, 'd) virt_m" where
  "LibvirtConnection_find_vm d c vmid =
     bind (query c ListAllDomains (drv_listAllDomains d)) (\<lambda>vms.
       case find (\<lambda>vm. drv_name d vm = vmid) vms of
         Some vm \<Rightarrow> return vm
       | None \<Rightarrow> raise (VMNotFound (''virtual machine '' @ vmid @ '' not found'')))"

definition LibvirtConnection_shutdown :: "('w, 'd) driver \<Rightarrow> nat \<Rightarrow> string \<Rightarrow> ('w, 'd, int) virt_m" where
  "LibvirtConnection_shutdown d c vmid =
     bind (LibvirtConnection_find_vm d c vmid) (\<lambda>vm.
       command c (Shutdown vm) (\<lambda>w. drv_shutdown d w vm))"

definition LibvirtConnection_suspend :: "('w, 'd) driver \<Rightarrow> nat \<Rightarrow> string \<Rightarrow> ('w, 'd, int) virt_m" where
  "LibvirtConnection_suspend d c vmid =
     bind (LibvirtConnection_find_vm d c vmid) (\<lambda>vm.
       command c (Suspend vm) (\<lambda>w. drv_suspend d w vm))"

definition LibvirtConnection_resume :: "('w, 'd) driver \<Rightarrow> nat \<Rightarrow> string \<Rightarrow> ('w, 'd, int) virt_m" where
  "LibvirtConnection_resume d c vmid =
     bind (LibvirtConnection_find_vm d c vmid) (\<lambda>vm.
       command c (Resume vm) (\<lambda>w. drv_resume d w vm))"

definition LibvirtConnection_pause :: "('w, 'd) driver \<Rightarrow> nat \<Rightarrow> string \<Rightarrow> ('w, 'd, int) virt_m" where
  "LibvirtConnection_pause d c vmid = LibvirtConnection_suspend d c vmid"

definition LibvirtConnection_unpause :: "('w, 'd) driver \<Rightarrow> nat \<Rightarrow> string \<Rightarrow> ('w, 'd, int) virt_m" where
  "LibvirtConnection_unpause d c vmid = LibvirtConnection_resume d c vmid"

definition LibvirtConnection_create :: "('w, 'd) driver \<Rightarrow> nat \<Rightarrow> string \<Rightarrow> ('w, 'd, int) virt_m" where
  "LibvirtConnection_create d c vmid =
     bind (LibvirtConnection_find_vm d c vmid) (\<lambda>vm.
       command c (Create vm) (\<lambda>w. drv_create d w vm))"

definition LibvirtConnection_destroy :: "('w, 'd) driver \<Rightarrow> nat \<Rightarrow> string \<Rightarrow> ('w, 'd, int) virt_m" where
  "LibvirtConnection_destroy d c vmid =
     bind (LibvirtConnection_find_vm d c vmid) (\<lambda>vm.
       command c (Destroy vm) (\<lambda>w. drv_destroy d w vm))"

definition LibvirtConnection_undefine ::
  "('w, 'd) driver \<Rightarrow> nat \<Rightarrow> string \<Rightarrow> nat \<Rightarrow> ('w, 'd, int) virt_m" where
  "LibvirtConnection_undefine d c vmid flag =
     bind (LibvirtConnection_find_vm d c vmid) (\<lambda>vm.
       command c (UndefineFlags vm flag) (\<lambda>w. drv_undefineFlags d w vm flag))"

definition LibvirtConnection_get_status2 :: "('w, 'd) driver \<Rightarrow> nat \<Rightarrow> 'd \<Rightarrow> ('w, 'd, string) virt_m" where
  "LibvirtConnection_get_status2 d c vm =
     bind (query c (Info vm) (\<lambda>w. drv_info d w vm)) (\<lambda>data.
       return (dict_get VIRT_STATE_NAME_MAP (fst data) ''unknown''))"

definition LibvirtConnection_get_status :: "('w, 'd) driver \<Rightarrow> nat \<Rightarrow> string \<Rightarrow> ('w, 'd, string) virt_m" where
  "LibvirtConnection_get_status d c vmid =
     bind (LibvirtConnection_find_vm d c vmid) (\<lambda>vm.
     bind (query c (Info vm) (\<lambda>w. drv_info d w vm)) (\<lambda>data.
       return (dict_get VIRT_STATE_NAME_MAP (fst data) ''unknown'')))"

definition LibvirtConnection_nodeinfo :: "('w, 'd) driver \<Rightarrow> nat \<Rightarrow> ('w, 'd, nodeinfo) virt_m" where
  "LibvirtConnection_nodeinfo d c = query c GetInfo (drv_getInfo d)"

definition LibvirtConnection_get_type :: "('w, 'd) driver \<Rightarrow> nat \<Rightarrow> ('w, 'd, string) virt_m" where
  "LibvirtConnection_get_type d c = query c GetType (drv_getType d)"

definition LibvirtConnection_get_xml :: "('w, 'd) driver \<Rightarrow> nat \<Rightarrow> string \<Rightarrow> ('w, 'd, string) virt_m" where
  "LibvirtConnection_get_xml d c vmid =
     bind (query c (LookupByName vmid) (\<lambda>w. drv_lookupByName d w vmid)) (\<lambda>vm.
       query c (XMLDesc vm 0) (\<lambda>w. drv_XMLDesc d w vm 0))"

definition LibvirtConnection_getFreeMemory :: "('w, 'd) driver \<Rightarrow> nat \<Rightarrow> ('w, 'd, int) virt_m" where
  "LibvirtConnection_getFreeMemory d c = query c GetFreeMemory (drv_getFreeMemory d)"

definition LibvirtConnection_get_autostart :: "('w, 'd) driver \<Rightarrow> nat \<Rightarrow> string \<Rightarrow> ('w, 'd, bool) virt_m" where
  "LibvirtConnection_get_autostart d c vmid =
     bind (query c (LookupByName vmid) (\<lambda>w. drv_lookupByName d w vmid)) (\<lambda>vm.
       query c (Autostart vm) (\<lambda>w. drv_autostart d w vm))"

definition LibvirtConnection_set_autostart ::
  "('w, 'd) driver \<Rightarrow> nat \<Rightarrow> string \<Rightarrow> bool \<Rightarrow> ('w, 'd, int) virt_m" where
  "LibvirtConnection_set_autostart d c vmid v =
     bind (query c (LookupByName vmid) (\<lambda>w. drv_lookupByName d w vmid)) (\<lambda>vm.
       command c (SetAutostart vm v) (\<lambda>w. drv_setAutostart d w vm v))"

definition LibvirtConnection_define_from_xml :: "('w, 'd) driver \<Rightarrow> nat \<Rightarrow> string \<Rightarrow> ('w, 'd, 'd) virt_m" where
  "LibvirtConnection_define_from_xml d c xml = command c (DefineXML xml) (\<lambda>w. drv_defineXML d w xml)"

section \<open>class Virt (lines 303-471)\<close>

text \<open>\<^verbatim>\<open>__get_conn\<close>: a new \<^verbatim>\<open>LibvirtConnection\<close>, stored in \<^verbatim>\<open>self.conn\<close> and returned.\<close>

definition get_conn :: "('w, 'd) driver \<Rightarrow> string \<Rightarrow> ('w, 'd, nat) virt_m" where
  "get_conn d uri =
     bind (LibvirtConnection_init d uri) (\<lambda>c s. (Inr c, s\<lparr>conn := Some c\<rparr>))"

text \<open>Reading \<^verbatim>\<open>self.conn\<close>; the attribute does not exist before its first assignment.\<close>

definition self_conn :: "('w, 'd, nat) virt_m" where
  "self_conn =
     (\<lambda>s. case conn s of
            None \<Rightarrow> (Inl (AttributeError ''conn''), s)
          | Some c \<Rightarrow> (Inr c, s))"

definition Virt_get_vm :: "('w, 'd) driver \<Rightarrow> string \<Rightarrow> string \<Rightarrow> ('w, 'd, 'd) virt_m" where
  "Virt_get_vm d uri vmid =
     bind (get_conn d uri) (\<lambda>_.
     bind self_conn (\<lambda>c. LibvirtConnection_find_vm d c vmid))"

text \<open>
  The loop of \<^verbatim>\<open>list_vms\<close>: the body is inside \<^verbatim>\<open>try ... except Exception: pass\<close>, so a
  domain whose status lookup raises is skipped.
\<close>

fun list_vms_loop ::
  "('w, 'd) driver \<Rightarrow> nat \<Rightarrow> string option \<Rightarrow> 'd list \<Rightarrow> string list \<Rightarrow> ('w, 'd, string list) virt_m" where
  "list_vms_loop d c state [] results = return results"
| "list_vms_loop d c state (x # vms) results =
     bind (try_except
             (if truthy state then
                bind (LibvirtConnection_get_status2 d c x) (\<lambda>vmstate.
                  if Some vmstate = state then return (results @ [drv_name d x])
                  else return results)
              else return (results @ [drv_name d x]))
             is_Exception (\<lambda>_. return results))
       (\<lambda>results'. list_vms_loop d c state vms results')"

definition Virt_list_vms :: "('w, 'd) driver \<Rightarrow> string \<Rightarrow> string option \<Rightarrow> ('w, 'd, string list) virt_m" where
  "Virt_list_vms d uri state =
     bind (get_conn d uri) (\<lambda>_.
     bind self_conn (\<lambda>c.
     bind (LibvirtConnection_find_vm_all d c) (\<lambda>vms.
       list_vms_loop d c state vms [])))"

fun state_loop :: "('w, 'd) driver \<Rightarrow> string list \<Rightarrow> string list \<Rightarrow> ('w, 'd, string list) virt_m" where
  "state_loop d [] state = return state"
| "state_loop d (vm # vms) state =
     bind self_conn (\<lambda>c.
     bind (LibvirtConnection_get_status d c vm) (\<lambda>state_blurb.
       state_loop d vms (state @ [vm @ '' '' @ state_blurb])))"

definition Virt_state :: "('w, 'd) driver \<Rightarrow> string \<Rightarrow> ('w, 'd, string list) virt_m" where
  "Virt_state d uri = bind (Virt_list_vms d uri None) (\<lambda>vms. state_loop d vms [])"

fun info_loop :: "('w, 'd) driver \<Rightarrow> string list \<Rightarrow> pydict \<Rightarrow> ('w, 'd, pydict) virt_m" where
  "info_loop d [] info = return info"
| "info_loop d (vm # vms) info =
     bind self_conn (\<lambda>c.
     bind (LibvirtConnection_find_vm d c vm) (\<lambda>h.
     bind (query c (Info h) (\<lambda>w. drv_info d w h)) (\<lambda>(st, maxMem, memory, nrVirtCpu, cpuTime).
     bind self_conn (\<lambda>c'.
     bind (LibvirtConnection_get_autostart d c' vm) (\<lambda>a.
       info_loop d vms
         (AList.update vm
            (VDict [(''state'', VStr (dict_get VIRT_STATE_NAME_MAP st ''unknown'')),
                    (''maxMem'', VStr (str_int maxMem)),
                    (''memory'', VStr (str_int memory)),
                    (''nrVirtCpu'', VInt nrVirtCpu),
                    (''cpuTime'', VStr (str_int cpuTime)),
                    (''autostart'', VBool a)])
            info))))))"

definition Virt_info :: "('w, 'd) driver \<Rightarrow> string \<Rightarrow> ('w, 'd, pydict) virt_m" where
  "Virt_info d uri = bind (Virt_list_vms d uri None) (\<lambda>vms. info_loop d vms [])"

definition Virt_nodeinfo :: "('w, 'd) driver \<Rightarrow> string \<Rightarrow> ('w, 'd, pydict) virt_m" where
  "Virt_nodeinfo d uri =
     bind (get_conn d uri) (\<lambda>_.
     bind self_conn (\<lambda>c.
     bind (LibvirtConnection_nodeinfo d c)
       (\<lambda>(cpumodel, phymemory, cpus, cpumhz, numanodes, sockets, cpucores, cputhreads).
          return [(''cpumodel'', VStr cpumodel),
                  (''phymemory'', VStr (str_int phymemory)),
                  (''cpus'', VStr (str_int cpus)),
                  (''cpumhz'', VStr (str_int cpumhz)),
                  (''numanodes'', VStr (str_int numanodes)),
                  (''sockets'', VStr (str_int sockets)),
                  (''cpucores'', VStr (str_int cpucores)),
                  (''cputhreads'', VStr (str_int cputhreads))])))"

definition Virt_virttype :: "('w, 'd) driver \<Rightarrow> string \<Rightarrow> ('w, 'd, string) virt_m" where
  "Virt_virttype d uri = bind (get_conn d uri) (\<lambda>c. LibvirtConnection_get_type d c)"

text \<open>\<^verbatim>\<open>autostart\<close>: the flag is set only when it differs from the current one.\<close>

definition Virt_autostart :: "('w, 'd) driver \<Rightarrow> string \<Rightarrow> string \<Rightarrow> bool \<Rightarrow> ('w, 'd, bool) virt_m" where
  "Virt_autostart d uri vmid as_flag =
     bind (get_conn d uri) (\<lambda>_.
     bind self_conn (\<lambda>c.
     bind (LibvirtConnection_get_autostart d c vmid) (\<lambda>cur.
       if cur \<noteq> as_flag then
         bind self_conn (\<lambda>c'.
         bind (LibvirtConnection_set_autostart d c' vmid as_flag) (\<lambda>_. return True))
       else return False)))"

definition Virt_freemem :: "('w, 'd) driver \<Rightarrow> string \<Rightarrow> ('w, 'd, int) virt_m" where
  "Virt_freemem d uri =
     bind (get_conn d uri) (\<lambda>_.
     bind self_conn (\<lambda>c. LibvirtConnection_getFreeMemory d c))"

definition Virt_shutdown :: "('w, 'd) driver \<Rightarrow> string \<Rightarrow> string \<Rightarrow> ('w, 'd, int) virt_m" where
  "Virt_shutdown d uri vmid =
     bind (get_conn d uri) (\<lambda>_.
     bind self_conn (\<lambda>c.
     bind (LibvirtConnection_shutdown d c vmid) (\<lambda>_. return 0)))"

definition Virt_pause :: "('w, 'd) driver \<Rightarrow> string \<Rightarrow> string \<Rightarrow> ('w, 'd, int) virt_m" where
  "Virt_pause d uri vmid =
     bind (get_conn d uri) (\<lambda>_.
     bind self_conn (\<lambda>c. LibvirtConnection_suspend d c vmid))"

definition Virt_unpause :: "('w, 'd) driver \<Rightarrow> string \<Rightarrow> string \<Rightarrow> ('w, 'd, int) virt_m" where
  "Virt_unpause d uri vmid =
     bind (get_conn d uri) (\<lambda>_.
     bind self_conn (\<lambda>c. LibvirtConnection_resume d c vmid))"

definition Virt_create :: "('w, 'd) driver \<Rightarrow> string \<Rightarrow> string \<Rightarrow> ('w, 'd, int) virt_m" where
  "Virt_create d uri vmid =
     bind (get_conn d uri) (\<lambda>_.
     bind self_conn (\<lambda>c. LibvirtConnection_create d c vmid))"

definition Virt_start :: "('w, 'd) driver \<Rightarrow> string \<Rightarrow> string \<Rightarrow> ('w, 'd, int) virt_m" where
  "Virt_start d uri vmid =
     bind (get_conn d uri) (\<lambda>_.
     bind self_conn (\<lambda>c. LibvirtConnection_create d c vmid))"

definition Virt_destroy :: "('w, 'd) driver \<Rightarrow> string \<Rightarrow> string \<Rightarrow> ('w, 'd, int) virt_m" where
  "Virt_destroy d uri vmid =
     bind (get_conn d uri) (\<lambda>_.
     bind self_conn (\<lambda>c. LibvirtConnection_destroy d c vmid))"

definition Virt_undefine :: "('w, 'd) driver \<Rightarrow> string \<Rightarrow> string \<Rightarrow> nat \<Rightarrow> ('w, 'd, int) virt_m" where
  "Virt_undefine d uri vmid flag =
     bind (get_conn d uri) (\<lambda>_.
     bind self_conn (\<lambda>c. LibvirtConnection_undefine d c vmid flag))"

definition Virt_status :: "('w, 'd) driver \<Rightarrow> string \<Rightarrow> string \<Rightarrow> ('w, 'd, string) virt_m" where
  "Virt_status d uri vmid =
     bind (get_conn d uri) (\<lambda>_.
     bind self_conn (\<lambda>c. LibvirtConnection_get_status d c vmid))"

definition Virt_get_xml :: "('w, 'd) driver \<Rightarrow> string \<Rightarrow> string \<Rightarrow> ('w, 'd, string) virt_m" where
  "Virt_get_xml d uri vmid =
     bind (get_conn d uri) (\<lambda>_.
     bind self_conn (\<lambda>c. LibvirtConnection_get_xml d c vmid))"

definition Virt_define :: "('w, 'd) driver \<Rightarrow> string \<Rightarrow> string \<Rightarrow> ('w, 'd, 'd) virt_m" where
  "Virt_define d uri xml =
     bind (get_conn d uri) (\<lambda>_.
     bind self_conn (\<lambda>c. LibvirtConnection_define_from_xml d c xml))"

section \<open>The module parameters\<close>

record params =
  p_state :: "string option"
  p_autostart :: "bool option"
  p_name :: "string option"
  p_command :: "string option"
  p_force :: "bool option"
  p_flags :: "string list option"
  p_uri :: string
  p_xml :: "string option"

section \<open>core (lines 474-616)\<close>

text \<open>\<^verbatim>\<open>if not isinstance(res, dict): res = {command: res}\<close>\<close>

fun wrap :: "string \<Rightarrow> val \<Rightarrow> pydict" where
  "wrap cmd (VDict m) = m"
| "wrap cmd v = [(cmd, v)]"

definition quoted :: "string \<Rightarrow> string" where
  "quoted s = CHR 0x27 # s @ [CHR 0x27]"

text \<open>Lines 494-501: the autostart check, for a command other than \<^verbatim>\<open>define\<close>.\<close>

definition core_autostart ::
  "('w, 'd) driver \<Rightarrow> string \<Rightarrow> string option \<Rightarrow> bool \<Rightarrow> pydict \<Rightarrow> ('w, 'd, pydict) virt_m" where
  "core_autostart d uri guest a res =
     (case guest of
        None \<Rightarrow> fail_json ''autostart requires 1 argument: name''
      | Some g \<Rightarrow>
          if g = [] then fail_json ''autostart requires 1 argument: name''
          else
            bind (try_except (bind (Virt_get_vm d uri g) (\<lambda>_. return ()))
                    is_VMNotFound (\<lambda>_. fail_json (''domain '' @ g @ '' not found''))) (\<lambda>_.
            bind (Virt_autostart d uri g a) (\<lambda>b.
              return (AList.update ''changed'' (VBool b) res))))"

text \<open>Lines 505-531: the desired state.\<close>

definition core_state ::
  "('w, 'd) driver \<Rightarrow> string \<Rightarrow> string \<Rightarrow> string option \<Rightarrow> pydict \<Rightarrow> ('w, 'd, nat \<times> pydict) virt_m" where
  "core_state d uri state guest res =
     (case guest of
        None \<Rightarrow> fail_json ''state change requires a guest specified''
      | Some g \<Rightarrow>
          if g = [] then fail_json ''state change requires a guest specified''
          else if state = ''running'' then
            bind (Virt_status d uri g) (\<lambda>st.
              if st = ''paused'' then
                bind (Virt_unpause d uri g) (\<lambda>m.
                  return (VIRT_SUCCESS,
                    AList.update ''msg'' (VInt m) (AList.update ''changed'' (VBool True) res)))
              else
                bind (Virt_status d uri g) (\<lambda>st'.
                  if st' \<noteq> ''running'' then
                    bind (Virt_start d uri g) (\<lambda>m.
                      return (VIRT_SUCCESS,
                        AList.update ''msg'' (VInt m) (AList.update ''changed'' (VBool True) res)))
                  else return (VIRT_SUCCESS, res)))
          else if state = ''shutdown'' then
            bind (Virt_status d uri g) (\<lambda>st.
              if st \<noteq> ''shutdown'' then
                bind (Virt_shutdown d uri g) (\<lambda>m.
                  return (VIRT_SUCCESS,
                    AList.update ''msg'' (VInt m) (AList.update ''changed'' (VBool True) res)))
              else return (VIRT_SUCCESS, res))
          else if state = ''destroyed'' then
            bind (Virt_status d uri g) (\<lambda>st.
              if st \<noteq> ''shutdown'' then
                bind (Virt_destroy d uri g) (\<lambda>m.
                  return (VIRT_SUCCESS,
                    AList.update ''msg'' (VInt m) (AList.update ''changed'' (VBool True) res)))
              else return (VIRT_SUCCESS, res))
          else if state = ''paused'' then
            bind (Virt_status d uri g) (\<lambda>st.
              if st = ''running'' then
                bind (Virt_pause d uri g) (\<lambda>m.
                  return (VIRT_SUCCESS,
                    AList.update ''msg'' (VInt m) (AList.update ''changed'' (VBool True) res)))
              else return (VIRT_SUCCESS, res))
          else fail_json ''unexpected state'')"

text \<open>
  Lines 535-572: \<^verbatim>\<open>define\<close>.  The handle \<^verbatim>\<open>v.get_vm(domain_name)\<close> belongs to the
  connection \<^verbatim>\<open>get_vm\<close> has just opened, the handle \<^verbatim>\<open>domain\<close> to the one \<^verbatim>\<open>define\<close> opened.
\<close>

definition core_define ::
  "('w, 'd) driver \<Rightarrow> string \<Rightarrow> string option \<Rightarrow> string option \<Rightarrow> bool option \<Rightarrow> pydict
     \<Rightarrow> ('w, 'd, pydict) virt_m" where
  "core_define d uri xml guest autostart res =
     (case xml of
        None \<Rightarrow> fail_json ''define requires xml argument''
      | Some x \<Rightarrow>
          if x = [] then fail_json ''define requires xml argument''
          else
            bind (if truthy guest
                  then warn (quoted ''xml'' @ '' is given - ignoring '' @ quoted ''name'')
                  else return ()) (\<lambda>_.
            case re_search_name x of
              None \<Rightarrow> fail_json (''Could not find domain '' @ quoted ''name'' @ '' in xml'')
            | Some domain_name \<Rightarrow>
                bind (try_except
                        (bind (Virt_get_vm d uri domain_name) (\<lambda>vm.
                         bind self_conn (\<lambda>c.
                         bind (query c (XMLDesc vm VIR_DOMAIN_XML_INACTIVE)
                                 (\<lambda>w. drv_XMLDesc d w vm VIR_DOMAIN_XML_INACTIVE)) (\<lambda>old.
                           return (Some old)))))
                        is_VMNotFound (\<lambda>_. return None)) (\<lambda>existing_domain_xml.
                bind (try_except
                        (bind (Virt_define d uri x) (\<lambda>domain.
                           if truthy existing_domain_xml then
                             bind self_conn (\<lambda>c.
                             bind (query c (XMLDesc domain VIR_DOMAIN_XML_INACTIVE)
                                     (\<lambda>w. drv_XMLDesc d w domain VIR_DOMAIN_XML_INACTIVE)) (\<lambda>new.
                               if existing_domain_xml \<noteq> Some new then
                                 return [(''changed'', VBool True),
                                         (''change_reason'', VStr ''config changed'')]
                               else return res))
                           else
                             return [(''changed'', VBool True),
                                     (''created'', VStr (drv_name d domain))]))
                        is_libvirtError
                        (\<lambda>e. case e of
                                LibvirtError code msg \<Rightarrow>
                                  if code \<noteq> 9 then fail_json (''libvirtError: '' @ msg)
                                  else return res
                              | _ \<Rightarrow> raise e)) (\<lambda>res'.
                  case autostart of
                    None \<Rightarrow> return res'
                  | Some a \<Rightarrow>
                      bind (Virt_autostart d uri domain_name a) (\<lambda>b.
                        if b then return [(''changed'', VBool True),
                                          (''change_reason'', VStr ''autostart'')]
                        else return res')))))"

text \<open>Lines 582-594: the flag handed to \<^verbatim>\<open>undefine\<close>, from \<^verbatim>\<open>flags\<close> and \<^verbatim>\<open>force\<close>.\<close>

definition undefine_flag :: "string list option \<Rightarrow> bool option \<Rightarrow> ('w, 'd, nat) virt_m" where
  "undefine_flag flags force =
     (case flags of
        Some fs \<Rightarrow>
          bind (if force = Some True
                then warn (''Ignoring '' @ quoted ''force'' @ '', because '' @ quoted ''flags''
                           @ '' are provided.'')
                else return ()) (\<lambda>_.
            if set [''nvram'', ''keep_nvram''] \<subseteq> set fs then
              raise (ValueError (''Flags '' @ quoted (''nvram'' @ quoted '' and '' @ ''keep_nvram'')
                                 @ '' are mutually exclusive''))
            else return (fold (\<lambda>item flag. flag + dict_get ENTRY_UNDEFINE_FLAGS_MAP item 0) fs 0))
      | None \<Rightarrow> if force = Some True then return 23 else return 0)"

text \<open>
  \<^verbatim>\<open>getattr(v, command)(guest)\<close> for the commands of \<^verbatim>\<open>VM_COMMANDS\<close> that reach line 601
  (all but \<^verbatim>\<open>define\<close> and \<^verbatim>\<open>undefine\<close>): \<^verbatim>\<open>Virt\<close> has no attribute \<^verbatim>\<open>stop\<close>.
\<close>

definition Virt_getattr_guest :: "('w, 'd) driver \<Rightarrow> string \<Rightarrow> string \<Rightarrow> string \<Rightarrow> ('w, 'd, val) virt_m" where
  "Virt_getattr_guest d uri cmd guest =
     (if cmd = ''create'' then bind (Virt_create d uri guest) (\<lambda>r. return (VInt r))
      else if cmd = ''destroy'' then bind (Virt_destroy d uri guest) (\<lambda>r. return (VInt r))
      else if cmd = ''get_xml'' then bind (Virt_get_xml d uri guest) (\<lambda>r. return (VStr r))
      else if cmd = ''pause'' then bind (Virt_pause d uri guest) (\<lambda>r. return (VInt r))
      else if cmd = ''shutdown'' then bind (Virt_shutdown d uri guest) (\<lambda>r. return (VInt r))
      else if cmd = ''status'' then bind (Virt_status d uri guest) (\<lambda>r. return (VStr r))
      else if cmd = ''start'' then bind (Virt_start d uri guest) (\<lambda>r. return (VInt r))
      else if cmd = ''unpause'' then bind (Virt_unpause d uri guest) (\<lambda>r. return (VInt r))
      else raise (AttributeError (quoted ''Virt'' @ '' object has no attribute '' @ quoted cmd)))"

text \<open>
  \<^verbatim>\<open>hasattr(v, command)\<close> and \<^verbatim>\<open>getattr(v, command)()\<close> at lines 607-608.  The object
  carries the methods of the class (\<^verbatim>\<open>__get_conn\<close> under its mangled name
  \<^verbatim>\<open>_Virt__get_conn\<close>), the attributes \<^verbatim>\<open>module\<close> and \<^verbatim>\<open>uri\<close>, \<^verbatim>\<open>conn\<close> once it is assigned,
  and what the interpreter gives every object (\<open>py_object_call\<close>).  A method that needs
  an argument, or an attribute that is no method, raises \<^verbatim>\<open>TypeError\<close> when called
  without one; \<^verbatim>\<open>_Virt__get_conn()\<close> opens a connection and returns it.
\<close>

definition Virt_methods0 :: "string list" where
  "Virt_methods0 = [''state'', ''info'', ''nodeinfo'', ''list_vms'', ''virttype'', ''freemem'']"

definition Virt_other_attrs :: "string list" where
  "Virt_other_attrs =
     [''module'', ''uri'', ''__init__'', ''get_vm'', ''autostart'', ''shutdown'', ''pause'',
      ''unpause'', ''create'', ''start'', ''destroy'', ''undefine'', ''status'', ''get_xml'',
      ''get_maxVcpus'', ''get_max_memory'', ''define'']"

definition Virt_hasattr :: "('w, 'd) driver \<Rightarrow> string \<Rightarrow> ('w, 'd, bool) virt_m" where
  "Virt_hasattr d cmd =
     (\<lambda>s. (Inr (cmd \<in> set Virt_methods0 \<or> cmd \<in> set Virt_other_attrs
                 \<or> cmd = ''_Virt__get_conn''
                 \<or> (cmd = ''conn'' \<and> conn s \<noteq> None)
                 \<or> py_object_call d cmd \<noteq> None), s))"

definition Virt_getattr0 :: "('w, 'd) driver \<Rightarrow> string \<Rightarrow> string \<Rightarrow> ('w, 'd, val) virt_m" where
  "Virt_getattr0 d uri cmd =
     (if cmd = ''state'' then bind (Virt_state d uri) (\<lambda>r. return (VList (map VStr r)))
      else if cmd = ''info'' then bind (Virt_info d uri) (\<lambda>r. return (VDict r))
      else if cmd = ''nodeinfo'' then bind (Virt_nodeinfo d uri) (\<lambda>r. return (VDict r))
      else if cmd = ''list_vms'' then bind (Virt_list_vms d uri None) (\<lambda>r. return (VList (map VStr r)))
      else if cmd = ''virttype'' then bind (Virt_virttype d uri) (\<lambda>r. return (VStr r))
      else if cmd = ''freemem'' then bind (Virt_freemem d uri) (\<lambda>r. return (VInt r))
      else if cmd = ''_Virt__get_conn'' then bind (get_conn d uri) (\<lambda>c. return (VConn c))
      else if cmd \<in> set Virt_other_attrs \<or> cmd = ''conn'' then raise (TypeError cmd)
      else
        (case py_object_call d cmd of
           Some (Inr v) \<Rightarrow> return v
         | Some (Inl e) \<Rightarrow> raise e
         | None \<Rightarrow> raise (AttributeError cmd)))"

text \<open>Lines 533-614: the command.\<close>

definition core_command ::
  "('w, 'd) driver \<Rightarrow> params \<Rightarrow> string \<Rightarrow> pydict \<Rightarrow> ('w, 'd, nat \<times> pydict) virt_m" where
  "core_command d p cmd res =
     (if cmd \<in> set VM_COMMANDS then
        (if cmd = ''define'' then
           bind (core_define d (p_uri p) (p_xml p) (p_name p) (p_autostart p) res) (\<lambda>res'.
             return (VIRT_SUCCESS, res'))
         else if \<not> truthy (p_name p) then
           fail_json (cmd @ '' requires 1 argument: guest'')
         else
           (case p_name p of
              None \<Rightarrow> fail_json (cmd @ '' requires 1 argument: guest'')
            | Some guest \<Rightarrow>
                if cmd = ''undefine'' then
                  bind (undefine_flag (p_flags p) (p_force p)) (\<lambda>flag.
                  bind (Virt_undefine d (p_uri p) guest flag) (\<lambda>r.
                    return (VIRT_SUCCESS, wrap cmd (VInt r))))
                else
                  bind (Virt_getattr_guest d (p_uri p) cmd guest) (\<lambda>r.
                    return (VIRT_SUCCESS, wrap cmd r))))
      else
        bind (Virt_hasattr d cmd) (\<lambda>h.
          if h then
            bind (Virt_getattr0 d (p_uri p) cmd) (\<lambda>r. return (VIRT_SUCCESS, wrap cmd r))
          else fail_json (''Command '' @ cmd @ '' not recognized'')))"

text \<open>
  Lines 494-501 as \<open>core\<close> reaches them: the autostart check runs on the empty result
  of line 486 when an autostart flag is given and the command is not \<^verbatim>\<open>define\<close>.
\<close>

definition autostart_check :: "('w, 'd) driver \<Rightarrow> params \<Rightarrow> ('w, 'd, pydict) virt_m" where
  "autostart_check d p =
     (case p_autostart p of
        None \<Rightarrow> return []
      | Some a \<Rightarrow>
          if p_command p \<noteq> Some ''define''
          then core_autostart d (p_uri p) (p_name p) a []
          else return [])"

definition core :: "('w, 'd) driver \<Rightarrow> params \<Rightarrow> ('w, 'd, nat \<times> pydict) virt_m" where
  "core d p =
     (if truthy (p_state p) \<and> p_command p = Some ''list_vms'' then
        bind (Virt_list_vms d (p_uri p) (p_state p)) (\<lambda>r.
          return (VIRT_SUCCESS, wrap ''list_vms'' (VList (map VStr r))))
      else
        bind (autostart_check d p) (\<lambda>res.
          if p_autostart p \<noteq> None \<and> p_command p \<noteq> Some ''define''
             \<and> \<not> truthy (p_command p) \<and> \<not> truthy (p_state p)
          then return (VIRT_SUCCESS, res)
          else
            (case p_state p of
               Some state \<Rightarrow>
                 if state \<noteq> [] then core_state d (p_uri p) state (p_name p) res
                 else
                   (case p_command p of
                      Some cmd \<Rightarrow>
                        if cmd \<noteq> [] then core_command d p cmd res
                        else fail_json ''expected state or command parameter to be specified''
                    | None \<Rightarrow> fail_json ''expected state or command parameter to be specified'')
             | None \<Rightarrow>
                 (case p_command p of
                    Some cmd \<Rightarrow>
                      if cmd \<noteq> [] then core_command d p cmd res
                      else fail_json ''expected state or command parameter to be specified''
                  | None \<Rightarrow> fail_json ''expected state or command parameter to be specified''))))"

text \<open>
  The start of an invocation: nothing opened, nothing logged.  \<open>run\<close> gives the outcome
  of \<open>core\<close> on a hypervisor \<open>w\<close> and the final state.
\<close>

definition init_state :: "'w \<Rightarrow> ('w, 'd) vstate" where
  "init_state w = \<lparr>world = w, conn = None, nconn = 0, trace = [], warnings = []\<rparr>"

definition run :: "('w, 'd) driver \<Rightarrow> params \<Rightarrow> 'w \<Rightarrow> (exn + nat \<times> pydict) \<times> ('w, 'd) vstate" where
  "run d p w = core d p (init_state w)"

text \<open>
  The \<^verbatim>\<open>changed\<close> a caller sees: \<^verbatim>\<open>exit_json\<close> reports a result without the key
  as unchanged.
\<close>

definition changed :: "pydict \<Rightarrow> bool" where
  "changed res = (map_of res ''changed'' = Some (VBool True))"

section \<open>A small hypervisor to run the module on\<close>

text \<open>
  A hypervisor with a list of domains, each with its name, state code, autostart flag
  and inactive XML; \<open>gone\<close> marks a domain that is still enumerated but whose lookups
  fail.  A handle is the domain's name.  Connections always open.
\<close>

record dom =
  dom_name :: string
  dom_state :: int
  dom_auto :: bool
  dom_xml :: string
  gone :: bool

type_synonym hv = "dom list"

definition no_domain :: lverr where
  "no_domain = (42, ''Domain not found'')"

definition hv_find :: "hv \<Rightarrow> string \<Rightarrow> dom option" where
  "hv_find w n = find (\<lambda>x. dom_name x = n \<and> \<not> gone x) w"

definition hv_read :: "hv \<Rightarrow> string \<Rightarrow> (dom \<Rightarrow> 'a) \<Rightarrow> lverr + 'a" where
  "hv_read w n f = (case hv_find w n of None \<Rightarrow> Inl no_domain | Some x \<Rightarrow> Inr (f x))"

definition hv_write :: "hv \<Rightarrow> string \<Rightarrow> (dom \<Rightarrow> dom) \<Rightarrow> (lverr + int) \<times> hv" where
  "hv_write w n f =
     (case hv_find w n of
        None \<Rightarrow> (Inl no_domain, w)
      | Some _ \<Rightarrow> (Inr 0, map (\<lambda>x. if dom_name x = n \<and> \<not> gone x then f x else x) w))"

definition hv_define :: "hv \<Rightarrow> string \<Rightarrow> (lverr + string) \<times> hv" where
  "hv_define w xml =
     (case re_search_name xml of
        None \<Rightarrow> (Inl (27, ''XML error''), w)
      | Some n \<Rightarrow>
          (case hv_find w n of
             None \<Rightarrow>
               (Inr n, w @ [\<lparr>dom_name = n, dom_state = 5, dom_auto = False, dom_xml = xml,
                             gone = False\<rparr>])
           | Some _ \<Rightarrow>
               (Inr n, map (\<lambda>x. if dom_name x = n \<and> \<not> gone x then x\<lparr>dom_xml := xml\<rparr> else x) w)))"

definition hv_undefine :: "hv \<Rightarrow> string \<Rightarrow> (lverr + int) \<times> hv" where
  "hv_undefine w n =
     (case hv_find w n of
        None \<Rightarrow> (Inl no_domain, w)
      | Some _ \<Rightarrow> (Inr 0, filter (\<lambda>x. dom_name x \<noteq> n) w))"

definition hv_driver :: "(hv, string) driver" where
  "hv_driver =
     \<lparr>drv_uname_r = (\<lambda>w. ''6.1.0-amd64''),
      drv_open = (\<lambda>w k. Inr True),
      drv_listAllDomains = (\<lambda>w. Inr (map dom_name w)),
      drv_lookupByName = (\<lambda>w n. hv_read w n dom_name),
      drv_name = (\<lambda>h. h),
      drv_info = (\<lambda>w h. hv_read w h (\<lambda>x. (dom_state x, 1048576, 1048576, 1, 0))),
      drv_XMLDesc = (\<lambda>w h f. hv_read w h dom_xml),
      drv_autostart = (\<lambda>w h. hv_read w h dom_auto),
      drv_setAutostart = (\<lambda>w h v. hv_write w h (\<lambda>x. x\<lparr>dom_auto := v\<rparr>)),
      drv_create = (\<lambda>w h. hv_write w h (\<lambda>x. x\<lparr>dom_state := 1\<rparr>)),
      drv_destroy = (\<lambda>w h. hv_write w h (\<lambda>x. x\<lparr>dom_state := 5\<rparr>)),
      drv_shutdown = (\<lambda>w h. hv_write w h (\<lambda>x. x\<lparr>dom_state := 5\<rparr>)),
      drv_suspend = (\<lambda>w h. hv_write w h (\<lambda>x. x\<lparr>dom_state := 3\<rparr>)),
      drv_resume = (\<lambda>w h. hv_write w h (\<lambda>x. x\<lparr>dom_state := 1\<rparr>)),
      drv_undefineFlags = (\<lambda>w h f. hv_undefine w h),
      drv_defineXML = hv_define,
      drv_getInfo = (\<lambda>w. Inr (''x86_64'', 16384, 8, 2400, 1, 1, 4, 2)),
      drv_getType = (\<lambda>w. Inr ''QEMU''),
      drv_getFreeMemory = (\<lambda>w. Inr 4096),
      py_object_call = (\<lambda>name. if name = ''__doc__''
                                 then Some (Inl (TypeError ''__doc__'')) else None)\<rparr>"

definition mk_dom :: "string \<Rightarrow> int \<Rightarrow> bool \<Rightarrow> dom" where
  "mk_dom n st a =
     \<lparr>dom_name = n, dom_state = st, dom_auto = a,
      dom_xml = ''<domain><name>'' @ n @ ''</name></domain>'', gone = False\<rparr>"

text \<open>Four domains: running, paused, shut off, crashed; and one that has vanished.\<close>

definition hv0 :: hv where
  "hv0 = [mk_dom ''alpha'' 1 False, mk_dom ''beta'' 3 True, mk_dom ''gamma'' 5 False,
          mk_dom ''delta'' 6 False, (mk_dom ''ghost'' 1 False)\<lparr>gone := True\<rparr>]"

definition no_params :: params where
  "no_params =
     \<lparr>p_state = None, p_autostart = None, p_name = None, p_command = None, p_force = None,
      p_flags = None, p_uri = ''qemu:///system'', p_xml = None\<rparr>"

section \<open>Notions used in the statements\<close>

text \<open>A connection can be opened on the hypervisor state \<open>w\<close>.\<close>

definition connects :: "('w, 'd) driver \<Rightarrow> string \<Rightarrow> 'w \<Rightarrow> bool" where
  "connects d uri w = (drv_open d w (open_kind_for (drv_uname_r d w) uri) = Inr True)"

text \<open>
  The status \<^verbatim>\<open>get_status2\<close> reports for a handle on the hypervisor state \<open>w\<close>;
  \<open>None\<close> when the lookup raises.
\<close>

definition vm_status :: "('w, 'd) driver \<Rightarrow> 'w \<Rightarrow> 'd \<Rightarrow> string option" where
  "vm_status d w x =
     (case drv_info d w x of
        Inl _ \<Rightarrow> None
      | Inr data \<Rightarrow> Some (dict_get VIRT_STATE_NAME_MAP (fst data) ''unknown''))"





fun is_SetAutostart :: "'d call \<Rightarrow> bool" where
  "is_SetAutostart (SetAutostart _ _) = True"
| "is_SetAutostart _ = False"

fun is_UndefineFlags :: "'d call \<Rightarrow> bool" where
  "is_UndefineFlags (UndefineFlags _ _) = True"
| "is_UndefineFlags _ = False"

text \<open>The commands that only read the hypervisor.\<close>

definition QUERY_COMMANDS :: "string list" where
  "QUERY_COMMANDS = [''get_xml'', ''status'', ''freemem'', ''info'', ''list_vms'', ''nodeinfo'',
                     ''virttype'']"

text \<open>
  \<open>adds P m\<close>: whatever \<open>m\<close> does, it only appends events that satisfy \<open>P\<close> to the log.
  \<open>quiet P\<close>: \<open>P\<close> admits every connection attempt and every call that is not mutating.
\<close>

definition adds :: "('d event \<Rightarrow> bool) \<Rightarrow> ('w, 'd, 'a) virt_m \<Rightarrow> bool" where
  "adds P m = (\<forall>s. \<exists>es. trace (snd (m s)) = trace s @ es \<and> list_all P es)"

definition quiet :: "('d event \<Rightarrow> bool) \<Rightarrow> bool" where
  "quiet P = ((\<forall>k b. P (Connect k b)) \<and> (\<forall>c x. \<not> mutating x \<longrightarrow> P (Call c x)))"

fun event_call :: "('d call \<Rightarrow> bool) \<Rightarrow> 'd event \<Rightarrow> bool" where
  "event_call Q (Connect _ _) = False"
| "event_call Q (Call _ x) = Q x"

text \<open>A driver result as the exception or value the module sees.\<close>

definition lv_result :: "lverr + 'a \<Rightarrow> exn + 'a" where
  "lv_result r = (case r of Inl (code, msg) \<Rightarrow> Inl (LibvirtError code msg) | Inr v \<Rightarrow> Inr v)"

text \<open>
  \<open>hoare P m Q\<close>: from a state that satisfies \<open>P\<close>, the outcome of \<open>m\<close> and the state it
  leaves satisfy \<open>Q\<close>.
\<close>

definition hoare ::
  "(('w, 'd) vstate \<Rightarrow> bool) \<Rightarrow> ('w, 'd, 'a) virt_m
     \<Rightarrow> (exn + 'a \<Rightarrow> ('w, 'd) vstate \<Rightarrow> bool) \<Rightarrow> bool" where
  "hoare P m Q = (\<forall>s. P s \<longrightarrow> Q (fst (m s)) (snd (m s)))"

text \<open>
  A step that started with the result \<open>res\<close> keeps a change that was reported, and a
  result that reports no change comes with \<open>U\<close>.
\<close>

definition keeps_changed :: "pydict \<Rightarrow> (('w, 'd) vstate \<Rightarrow> bool) \<Rightarrow> exn + nat \<times> pydict \<Rightarrow> ('w, 'd) vstate \<Rightarrow> bool" where
  "keeps_changed res U r s =
     (case r of
        Inl _ \<Rightarrow> True
      | Inr (rc, res') \<Rightarrow> (changed res \<longrightarrow> changed res') \<and> (\<not> changed res' \<longrightarrow> U s))"

text \<open>
  \<open>opened es\<close>: the connections opened in the log \<open>es\<close>.  \<open>on_latest_from n es\<close>: starting
  with \<open>n\<close> open connections, every call of \<open>es\<close> is issued on the connection opened
  last (and there is one).
\<close>

fun opened :: "'d event list \<Rightarrow> nat" where
  "opened [] = 0"
| "opened (Connect _ ok # es) = (if ok then Suc (opened es) else opened es)"
| "opened (Call _ _ # es) = opened es"

fun on_latest_from :: "nat \<Rightarrow> 'd event list \<Rightarrow> bool" where
  "on_latest_from n [] = True"
| "on_latest_from n (Connect _ ok # es) = on_latest_from (if ok then Suc n else n) es"
| "on_latest_from n (Call c _ # es) = (c = n \<and> 0 < n \<and> on_latest_from n es)"





section \<open>Evaluating the monad\<close>

lemmas monad_defs =
  return_def raise_def fail_json_def bind_def try_except_def warn_def query_def command_def

lemmas LibvirtConnection_defs =
  LibvirtConnection_init_def LibvirtConnection_find_vm_all_def
  LibvirtConnection_find_vm_def LibvirtConnection_shutdown_def LibvirtConnection_suspend_def
  LibvirtConnection_resume_def LibvirtConnection_create_def LibvirtConnection_destroy_def
  LibvirtConnection_undefine_def LibvirtConnection_get_status2_def
  LibvirtConnection_get_status_def LibvirtConnection_get_xml_def
  LibvirtConnection_get_autostart_def LibvirtConnection_set_autostart_def
  LibvirtConnection_define_from_xml_def LibvirtConnection_nodeinfo_def
  LibvirtConnection_get_type_def LibvirtConnection_getFreeMemory_def

lemmas Virt_defs =
  get_conn_def self_conn_def Virt_get_vm_def Virt_list_vms_def Virt_autostart_def
  Virt_shutdown_def Virt_pause_def Virt_unpause_def Virt_create_def Virt_start_def
  Virt_destroy_def Virt_undefine_def Virt_status_def Virt_get_xml_def Virt_define_def

lemmas hv_defs =
  hv_driver_def hv0_def mk_dom_def hv_find_def hv_read_def hv_write_def hv_define_def
  hv_undefine_def no_domain_def no_params_def init_state_def run_def dict_get_def
  VIRT_STATE_NAME_MAP_def VIRT_SUCCESS_def starts_with_def open_kind_for_def

lemma mutations_append [simp]: "mutations (es @ es') = mutations es @ mutations es'"
  by (induction es rule: calls_of.induct) (simp_all add: mutations_def)

lemma calls_of_append [simp]: "calls_of (es @ es') = calls_of es @ calls_of es'"
  by (induction es rule: calls_of.induct) simp_all

lemma mutations_Nil [simp]: "mutations [] = []"
  by (simp add: mutations_def)

lemma mutations_Connect [simp]: "mutations (Connect k b # es) = mutations es"
  by (simp add: mutations_def)

lemma mutations_Call [simp]:
  "mutations (Call c x # es) = (if mutating x then x # mutations es else mutations es)"
  by (simp add: mutations_def)

section \<open>What an operation can add to the log\<close>

lemma adds_return: "adds P (return x)"
  by (simp add: adds_def return_def)

lemma adds_raise: "adds P (raise e)"
  by (simp add: adds_def raise_def)

lemma adds_fail_json: "adds P (fail_json msg)"
  by (simp add: fail_json_def adds_raise)

lemma adds_warn: "adds P (warn msg)"
  by (simp add: adds_def warn_def)

lemma adds_self_conn: "adds P self_conn"
  by (simp add: adds_def self_conn_def split: option.split)

lemma adds_bind:
  assumes "adds P m" and "\<And>x. adds P (f x)"
  shows "adds P (bind m f)"
  unfolding adds_def
proof
  fix s
  obtain r s1 where ms: "m s = (r, s1)" by (cases "m s")
  from assms(1) obtain es where es: "trace s1 = trace s @ es" "list_all P es"
    using ms unfolding adds_def by (metis snd_conv)
  show "\<exists>es. trace (snd (bind m f s)) = trace s @ es \<and> list_all P es"
  proof (cases r)
    case (Inl e)
    then show ?thesis using ms es by (auto simp: bind_def)
  next
    case (Inr x)
    from assms(2)[of x] obtain es' where
      es': "trace (snd (f x s1)) = trace s1 @ es'" "list_all P es'"
      unfolding adds_def by blast
    have "trace (snd (bind m f s)) = trace s @ (es @ es')"
      using ms Inr es es' by (simp add: bind_def)
    moreover have "list_all P (es @ es')" using es es' by simp
    ultimately show ?thesis by blast
  qed
qed

lemma adds_try_except:
  assumes "adds P m" and "\<And>e. adds P (h e)"
  shows "adds P (try_except m p h)"
  unfolding adds_def
proof
  fix s
  obtain r s1 where ms: "m s = (r, s1)" by (cases "m s")
  from assms(1) obtain es where es: "trace s1 = trace s @ es" "list_all P es"
    using ms unfolding adds_def by (metis snd_conv)
  show "\<exists>es. trace (snd (try_except m p h s)) = trace s @ es \<and> list_all P es"
  proof (cases r)
    case (Inr x)
    then show ?thesis using ms es by (auto simp: try_except_def)
  next
    case (Inl e)
    show ?thesis
    proof (cases "p e")
      case False
      then show ?thesis using ms es Inl by (auto simp: try_except_def)
    next
      case True
      from assms(2)[of e] obtain es' where
        es': "trace (snd (h e s1)) = trace s1 @ es'" "list_all P es'"
        unfolding adds_def by blast
      have "trace (snd (try_except m p h s)) = trace s @ (es @ es')"
        using ms Inl True es es' by (simp add: try_except_def)
      moreover have "list_all P (es @ es')" using es es' by simp
      ultimately show ?thesis by blast
    qed
  qed
qed

lemma adds_query: "P (Call c x) \<Longrightarrow> adds P (query c x f)"
  by (auto simp: adds_def query_def Let_def split: sum.split prod.split)

lemma adds_command: "P (Call c x) \<Longrightarrow> adds P (command c x f)"
  by (auto simp: adds_def command_def Let_def split: sum.split prod.split)

lemma adds_init: "(\<And>k b. P (Connect k b)) \<Longrightarrow> adds P (LibvirtConnection_init d uri)"
  by (auto simp: adds_def LibvirtConnection_init_def Let_def
      split: sum.split prod.split bool.split)

lemma adds_get_conn: "(\<And>k b. P (Connect k b)) \<Longrightarrow> adds P (get_conn d uri)"
  unfolding get_conn_def
  by (rule adds_bind, rule adds_init) (auto simp: adds_def)

lemma adds_if: "adds P m1 \<Longrightarrow> adds P m2 \<Longrightarrow> adds P (if b then m1 else m2)"
  by simp

lemmas adds_intros =
  adds_return adds_raise adds_fail_json adds_warn adds_self_conn adds_bind adds_try_except
  adds_query adds_command adds_get_conn adds_if

lemma adds_find_vm:
  "P (Call c ListAllDomains) \<Longrightarrow> adds P (LibvirtConnection_find_vm d c vmid)"
  unfolding LibvirtConnection_find_vm_def
  by (auto intro!: adds_intros split: option.split)

lemma adds_status: "quiet P \<Longrightarrow> adds P (Virt_status d uri g)"
  unfolding Virt_status_def LibvirtConnection_get_status_def quiet_def
  by (auto intro!: adds_intros adds_find_vm)

lemma adds_get_vm: "quiet P \<Longrightarrow> adds P (Virt_get_vm d uri g)"
  unfolding Virt_get_vm_def quiet_def
  by (auto intro!: adds_intros adds_find_vm)

lemma adds_get_xml: "quiet P \<Longrightarrow> adds P (Virt_get_xml d uri g)"
  unfolding Virt_get_xml_def LibvirtConnection_get_xml_def quiet_def
  by (auto intro!: adds_intros)

lemma adds_unpause:
  "quiet P \<Longrightarrow> (\<And>c h. P (Call c (Resume h))) \<Longrightarrow> adds P (Virt_unpause d uri g)"
  unfolding Virt_unpause_def LibvirtConnection_resume_def quiet_def
  by (auto intro!: adds_intros adds_find_vm)

lemma adds_pause:
  "quiet P \<Longrightarrow> (\<And>c h. P (Call c (Suspend h))) \<Longrightarrow> adds P (Virt_pause d uri g)"
  unfolding Virt_pause_def LibvirtConnection_suspend_def quiet_def
  by (auto intro!: adds_intros adds_find_vm)

lemma adds_start:
  "quiet P \<Longrightarrow> (\<And>c h. P (Call c (Create h))) \<Longrightarrow> adds P (Virt_start d uri g)"
  unfolding Virt_start_def LibvirtConnection_create_def quiet_def
  by (auto intro!: adds_intros adds_find_vm)

lemma adds_create:
  "quiet P \<Longrightarrow> (\<And>c h. P (Call c (Create h))) \<Longrightarrow> adds P (Virt_create d uri g)"
  unfolding Virt_create_def LibvirtConnection_create_def quiet_def
  by (auto intro!: adds_intros adds_find_vm)

lemma adds_shutdown:
  "quiet P \<Longrightarrow> (\<And>c h. P (Call c (Shutdown h))) \<Longrightarrow> adds P (Virt_shutdown d uri g)"
  unfolding Virt_shutdown_def LibvirtConnection_shutdown_def quiet_def
  by (auto intro!: adds_intros adds_find_vm)

lemma adds_destroy:
  "quiet P \<Longrightarrow> (\<And>c h. P (Call c (Destroy h))) \<Longrightarrow> adds P (Virt_destroy d uri g)"
  unfolding Virt_destroy_def LibvirtConnection_destroy_def quiet_def
  by (auto intro!: adds_intros adds_find_vm)

lemma adds_autostart:
  "quiet P \<Longrightarrow> (\<And>c h v. P (Call c (SetAutostart h v))) \<Longrightarrow> adds P (Virt_autostart d uri g a)"
  unfolding Virt_autostart_def LibvirtConnection_get_autostart_def
    LibvirtConnection_set_autostart_def quiet_def
  by (auto intro!: adds_intros)

lemma adds_core_autostart:
  "quiet P \<Longrightarrow> (\<And>c h v. P (Call c (SetAutostart h v)))
     \<Longrightarrow> adds P (core_autostart d uri guest a res)"
  unfolding core_autostart_def
  by (auto intro!: adds_intros adds_get_vm adds_autostart split: option.split)

lemma adds_core_state:
  assumes "quiet P"
    and "\<And>c h. P (Call c (Resume h))" and "\<And>c h. P (Call c (Create h))"
    and "\<And>c h. P (Call c (Shutdown h))" and "\<And>c h. P (Call c (Destroy h))"
    and "\<And>c h. P (Call c (Suspend h))"
  shows "adds P (core_state d uri st guest res)"
proof -
  note ops = adds_status[OF assms(1)] adds_unpause[OF assms(1)] adds_start[OF assms(1)]
    adds_shutdown[OF assms(1)] adds_destroy[OF assms(1)] adds_pause[OF assms(1)]
  show ?thesis
    unfolding core_state_def
    by (cases guest; simp add: adds_fail_json)
      (intro conjI impI adds_bind adds_if adds_return adds_fail_json ops assms)
qed

lemma adds_list_vms_loop:
  "P (Call c ListAllDomains) \<Longrightarrow> (\<And>h. P (Call c (Info h)))
     \<Longrightarrow> adds P (list_vms_loop d c st vms results)"
proof (induction vms arbitrary: results)
  case Nil
  then show ?case by (simp add: adds_return)
next
  case (Cons x vms)
  show ?case
    unfolding list_vms_loop.simps LibvirtConnection_get_status2_def
    by (intro adds_bind adds_try_except adds_if adds_return adds_query Cons)
qed

lemma adds_list_vms: "quiet P \<Longrightarrow> adds P (Virt_list_vms d uri st)"
  unfolding Virt_list_vms_def LibvirtConnection_find_vm_all_def quiet_def
  by (auto intro!: adds_intros adds_list_vms_loop)

section \<open>The flag handed to undefine\<close>

lemma fold_flag_sum:
  "fold (\<lambda>item flag. flag + f item) fs (a::nat) = a + sum_list (map f fs)"
  by (induction fs arbitrary: a) simp_all

text \<open>
  Claim C4 as it is written fails when \<^verbatim>\<open>flags\<close> is given as the empty list: the test
  at line 583 is \<^verbatim>\<open>flags is not None\<close>, so \<^verbatim>\<open>force\<close> is ignored (with the warning) and
  the flag stays 0, not 23.
\<close>

theorem undefine_flag_empty_list_counterexample:
  "fst (undefine_flag (Some []) (Some True) (init_state hv0 :: (hv, string) vstate)) = Inr 0
   \<and> fst (undefine_flag (Some []) (Some True) (init_state hv0 :: (hv, string) vstate)) \<noteq> Inr 23"
  by (simp add: undefine_flag_def monad_defs init_state_def)

text \<open>
  Claim C4, amended.  With \<^verbatim>\<open>flags\<close> absent, \<^verbatim>\<open>force=true\<close> gives 23, and \<^verbatim>\<open>force\<close> false
  or absent gives 0.  Whenever \<^verbatim>\<open>flags\<close> is given (the empty list included) and does not
  hold both \<^verbatim>\<open>nvram\<close> and \<^verbatim>\<open>keep_nvram\<close>, \<^verbatim>\<open>force\<close> is ignored: the flag is the one
  computed without \<^verbatim>\<open>force\<close>, and a warning is issued exactly when \<^verbatim>\<open>force=true\<close>.  When
  moreover the list holds no token twice, the flag is the sum of the bit values of the
  set of tokens, an unrecognised token counting 0.  And 23 is the sum of the bits of
  \<^verbatim>\<open>managed_save\<close>, \<^verbatim>\<open>snapshots_metadata\<close>, \<^verbatim>\<open>nvram\<close> and \<^verbatim>\<open>checkpoints_metadata\<close>.
\<close>

theorem undefine_flag_composition:
  "undefine_flag None (Some True) s = (Inr 23, s)
   \<and> (force \<noteq> Some True \<longrightarrow> undefine_flag None force s = (Inr 0, s))
   \<and> (\<not> {''nvram'', ''keep_nvram''} \<subseteq> set fs \<longrightarrow>
        fst (undefine_flag (Some fs) force s) = fst (undefine_flag (Some fs) None s)
        \<and> (\<exists>flag. fst (undefine_flag (Some fs) force s) = Inr flag)
        \<and> snd (undefine_flag (Some fs) force s)
          = (if force = Some True
             then s\<lparr>warnings := warnings s @
                    [''Ignoring '' @ quoted ''force'' @ '', because '' @ quoted ''flags''
                     @ '' are provided.'']\<rparr>
             else s))
   \<and> (\<not> {''nvram'', ''keep_nvram''} \<subseteq> set fs \<and> distinct fs \<longrightarrow>
        fst (undefine_flag (Some fs) force s)
          = Inr (\<Sum>item \<in> set fs. dict_get ENTRY_UNDEFINE_FLAGS_MAP item 0))
   \<and> (\<Sum>item \<in> {''managed_save'', ''snapshots_metadata'', ''nvram'', ''checkpoints_metadata''}.
         dict_get ENTRY_UNDEFINE_FLAGS_MAP item 0) = 23"
proof -
  have d: "distinct fs \<Longrightarrow>
      sum_list (map (\<lambda>item. dict_get ENTRY_UNDEFINE_FLAGS_MAP item 0) fs)
        = (\<Sum>item \<in> set fs. dict_get ENTRY_UNDEFINE_FLAGS_MAP item 0)"
    by (rule sum_list_distinct_conv_sum_set)
  have t: "(\<Sum>item \<in> {''managed_save'', ''snapshots_metadata'', ''nvram'', ''checkpoints_metadata''}.
         dict_get ENTRY_UNDEFINE_FLAGS_MAP item 0) = (23::nat)"
    by (simp add: dict_get_def ENTRY_UNDEFINE_FLAGS_MAP_def)
  show ?thesis
    using d t by (simp add: undefine_flag_def monad_defs fold_flag_sum)
qed

theorem undefine_flag_composition_witness:
  "fst (undefine_flag None None (init_state hv0 :: (hv, string) vstate)) = Inr 0
   \<and> fst (undefine_flag (Some [''managed_save'']) (Some True)
            (init_state hv0 :: (hv, string) vstate)) = Inr 1
   \<and> warnings (snd (undefine_flag (Some [''managed_save'']) (Some True)
                      (init_state hv0 :: (hv, string) vstate)))
       = [''Ignoring '' @ quoted ''force'' @ '', because '' @ quoted ''flags'' @ '' are provided.'']
   \<and> fst (undefine_flag (Some [''nvram'', ''bogus'', ''checkpoints_metadata'']) None
            (init_state hv0 :: (hv, string) vstate)) = Inr 20"
  using
    undefine_flag_composition
      [of "init_state hv0 :: (hv, string) vstate" None "[''managed_save'']"]
    undefine_flag_composition
      [of "init_state hv0 :: (hv, string) vstate" "Some True" "[''managed_save'']"]
    undefine_flag_composition
      [of "init_state hv0 :: (hv, string) vstate" None
          "[''nvram'', ''bogus'', ''checkpoints_metadata'']"]
  by (simp add: dict_get_def ENTRY_UNDEFINE_FLAGS_MAP_def init_state_def)

text \<open>
  A list that names a token twice adds its bit twice: \<^verbatim>\<open>nvram\<close> twice gives 8, the bit
  of \<^verbatim>\<open>keep_nvram\<close>.
\<close>

lemma undefine_flag_repeated_token:
  "fst (undefine_flag (Some [''nvram'', ''nvram'']) None (init_state hv0 :: (hv, string) vstate))
     = Inr 8
   \<and> dict_get ENTRY_UNDEFINE_FLAGS_MAP ''keep_nvram'' 0 = 8"
  by (simp add: undefine_flag_def monad_defs dict_get_def ENTRY_UNDEFINE_FLAGS_MAP_def)

section \<open>Listing the domains\<close>

lemma list_vms_loop_eval:
  "fst (list_vms_loop d c st vms acc s)
     = Inr (acc @ (if truthy st
                   then map (drv_name d) (filter (\<lambda>x. vm_status d (world s) x = st) vms)
                   else map (drv_name d) vms))
   \<and> world (snd (list_vms_loop d c st vms acc s)) = world s"
proof (induction vms arbitrary: acc s)
  case Nil
  then show ?case by (simp add: return_def)
next
  case (Cons x vms)
  show ?case
  proof (cases "truthy st")
    case False
    then show ?thesis
      using Cons[of "acc @ [drv_name d x]" s]
      by (simp add: monad_defs)
  next
    case True
    then obtain f where st: "st = Some f" by (cases st) simp_all
    show ?thesis
    proof (cases "drv_info d (world s) x")
      case (Inl e)
      then show ?thesis
        using True Cons[of acc "s\<lparr>trace := trace s @ [Call c (Info x)]\<rparr>"]
        by (cases e) (simp add: monad_defs LibvirtConnection_get_status2_def vm_status_def Let_def st)
    next
      case (Inr data)
      then show ?thesis
        using True Cons[of "acc @ [drv_name d x]" "s\<lparr>trace := trace s @ [Call c (Info x)]\<rparr>"]
          Cons[of acc "s\<lparr>trace := trace s @ [Call c (Info x)]\<rparr>"]
        by (auto simp add: monad_defs LibvirtConnection_get_status2_def vm_status_def Let_def st)
    qed
  qed
qed

lemma Virt_list_vms_eval:
  assumes "connects d uri (world s)" and "drv_listAllDomains d (world s) = Inr vms"
  shows "fst (Virt_list_vms d uri st s)
     = Inr (if truthy st
            then map (drv_name d) (filter (\<lambda>x. vm_status d (world s) x = st) vms)
            else map (drv_name d) vms)"
  using assms list_vms_loop_eval[of d "Suc (nconn s)" st vms "[]"]
  by (simp add: Virt_list_vms_def get_conn_def self_conn_def LibvirtConnection_init_def
      LibvirtConnection_find_vm_all_def connects_def monad_defs Let_def)

lemma fst_bind_Inr: "fst (m s) = Inr x \<Longrightarrow> fst (bind m f s) = fst (f x (snd (m s)))"
  by (cases "m s") (simp add: bind_def)

text \<open>
  Claim C6.  When a connection opens and the enumeration gives \<open>vms\<close>, \<^verbatim>\<open>list_vms\<close>
  with a filter returns exactly the names of the enumerated domains whose status equals
  the filter, and with no filter all enumerated names; a domain whose status lookup raises
  (\<open>vm_status\<close> is \<open>None\<close>) is left out and no error reaches the caller.  The same list is
  what \<open>core\<close> returns under the key \<^verbatim>\<open>list_vms\<close> for \<^verbatim>\<open>command=list_vms\<close> with a state.
\<close>

theorem list_vms_filter:
  assumes "connects d uri w" and "drv_listAllDomains d w = Inr vms"
  shows "(truthy st \<longrightarrow>
            fst (Virt_list_vms d uri st (init_state w))
              = Inr (map (drv_name d) (filter (\<lambda>x. vm_status d w x = st) vms)))
       \<and> (\<not> truthy st \<longrightarrow>
            fst (Virt_list_vms d uri st (init_state w)) = Inr (map (drv_name d) vms))
       \<and> (truthy (p_state p) \<and> p_command p = Some ''list_vms'' \<and> p_uri p = uri \<longrightarrow>
            fst (run d p w)
              = Inr (VIRT_SUCCESS,
                     [(''list_vms'',
                       VList (map VStr (map (drv_name d)
                         (filter (\<lambda>x. vm_status d w x = p_state p) vms))))]))"
proof -
  have w: "world (init_state w :: ('a, 'b) vstate) = w" by (simp add: init_state_def)
  note ev = Virt_list_vms_eval[of d uri "init_state w" vms, unfolded w, OF assms]
  show ?thesis
    by (auto simp: ev run_def core_def autostart_check_def fst_bind_Inr return_def)
qed

theorem list_vms_filter_witness:
  "fst (Virt_list_vms hv_driver ''qemu:///system'' (Some ''running'') (init_state hv0))
     = Inr [''alpha'']
   \<and> vm_status hv_driver hv0 ''ghost'' = None
   \<and> fst (Virt_list_vms hv_driver ''qemu:///system'' None (init_state hv0))
     = Inr [''alpha'', ''beta'', ''gamma'', ''delta'', ''ghost'']
   \<and> fst (run hv_driver (no_params\<lparr>p_state := Some ''paused'', p_command := Some ''list_vms''\<rparr>) hv0)
     = Inr (0, [(''list_vms'', VList [VStr ''beta''])])"
  using
    list_vms_filter [of hv_driver "''qemu:///system''" hv0 "map dom_name hv0" "Some ''running''"
       "no_params\<lparr>p_state := Some ''paused'', p_command := Some ''list_vms''\<rparr>"]
    list_vms_filter [of hv_driver "''qemu:///system''" hv0 "map dom_name hv0" None
       "no_params\<lparr>p_state := Some ''paused'', p_command := Some ''list_vms''\<rparr>"]
  by (simp add: connects_def vm_status_def hv_defs)

section \<open>The command stop\<close>

lemma stop_command_fails:
  "truthy (Some g) \<Longrightarrow> Virt_getattr_guest d uri ''stop'' g s
    = (Inl (AttributeError (quoted ''Virt'' @ '' object has no attribute '' @ quoted ''stop'')), s)"
  by (simp add: Virt_getattr_guest_def raise_def)

lemma core_command_stop:
  "p_command p = Some ''stop'' \<Longrightarrow>
   core_command d p ''stop'' res s =
     (if truthy (p_name p)
      then (Inl (AttributeError (quoted ''Virt'' @ '' object has no attribute '' @ quoted ''stop'')), s)
      else (Inl (FailJson ''stop requires 1 argument: guest''), s))"
  by (cases "p_name p")
     (simp_all add: core_command_def VM_COMMANDS_def Virt_getattr_guest_def monad_defs)

lemma bind_fails:
  assumes "\<And>x s. \<exists>e. f x s = (Inl e, s)"
  shows "\<exists>e. fst (bind m f s) = Inl e"
proof (cases "m s")
  case (Pair r s1)
  show ?thesis
  proof (cases r)
    case (Inl e) then show ?thesis using Pair by (simp add: bind_def)
  next
    case (Inr x)
    from assms[of x s1] obtain e where "f x s1 = (Inl e, s1)" by blast
    then show ?thesis using Pair Inr by (simp add: bind_def)
  qed
qed

text \<open>
  Claim C10 as it is written fails in two ways.  With a desired state the command is
  never dispatched: \<^verbatim>\<open>state=running\<close> with \<^verbatim>\<open>command=stop\<close> resumes the paused guest and
  succeeds.  With an autostart flag the autostart check runs before the command: it
  issues its driver calls, the set-autostart call among them, and only then does the
  command fail.
\<close>

theorem stop_command_counterexample:
  "fst (run hv_driver (no_params\<lparr>p_command := Some ''stop'', p_state := Some ''running'',
          p_name := Some ''beta''\<rparr>) hv0)
     = Inr (VIRT_SUCCESS, [(''changed'', VBool True), (''msg'', VInt 0)])
   \<and> mutations (trace (snd (run hv_driver (no_params\<lparr>p_command := Some ''stop'',
          p_state := Some ''running'', p_name := Some ''beta''\<rparr>) hv0)))
     = [Resume ''beta'']
   \<and> fst (run hv_driver (no_params\<lparr>p_command := Some ''stop'', p_autostart := Some True,
          p_name := Some ''gamma''\<rparr>) hv0)
     = Inl (AttributeError (quoted ''Virt'' @ '' object has no attribute '' @ quoted ''stop''))
   \<and> calls_of (trace (snd (run hv_driver (no_params\<lparr>p_command := Some ''stop'',
          p_autostart := Some True, p_name := Some ''gamma''\<rparr>) hv0)))
     = [ListAllDomains, LookupByName ''gamma'', Autostart ''gamma'', LookupByName ''gamma'',
        SetAutostart ''gamma'' True]"
  by (simp add: core_def autostart_check_def core_autostart_def core_state_def core_command_def
      Virt_getattr_guest_def VM_COMMANDS_def monad_defs LibvirtConnection_defs Virt_defs
      hv_defs Let_def)

text \<open>
  Claim C10, amended.  \<^verbatim>\<open>stop\<close> is among \<^verbatim>\<open>VM_COMMANDS\<close> (and so among the accepted
  commands), but \<^verbatim>\<open>Virt\<close> has no such method: with no desired state given, the invocation
  always fails, and the command itself opens no connection and issues no driver call:
  the invocation ends in the state the autostart check left.  When the autostart check
  succeeds, or there is none, the failure is \<^verbatim>\<open>AttributeError\<close> when a guest is named and
  the missing-guest failure otherwise; when there is no autostart flag, no connection is
  opened and no driver call is issued in the whole invocation.
\<close>

theorem stop_command_always_fails:
  assumes "p_command p = Some ''stop''" and "\<not> truthy (p_state p)"
  shows "''stop'' \<in> set VM_COMMANDS \<and> ''stop'' \<in> set ALL_COMMANDS
    \<and> (\<exists>e. fst (run d p w) = Inl e)
    \<and> snd (run d p w) = snd (autostart_check d p (init_state w))
    \<and> (\<forall>res. fst (autostart_check d p (init_state w)) = Inr res \<longrightarrow>
          fst (run d p w) =
              (if truthy (p_name p)
               then Inl (AttributeError (quoted ''Virt'' @ '' object has no attribute '' @ quoted ''stop''))
               else Inl (FailJson ''stop requires 1 argument: guest'')))
    \<and> (p_autostart p = None \<longrightarrow>
          trace (snd (run d p w)) = [] \<and> nconn (snd (run d p w)) = 0
          \<and> fst (run d p w) =
              (if truthy (p_name p)
               then Inl (AttributeError (quoted ''Virt'' @ '' object has no attribute '' @ quoted ''stop''))
               else Inl (FailJson ''stop requires 1 argument: guest'')))"
proof -
  have st: "p_state p = None \<or> p_state p = Some []"
    using assms(2) by (cases "p_state p") simp_all
  have k: "\<And>res s. \<exists>e. core_command d p ''stop'' res s = (Inl e, s)"
    by (simp add: core_command_stop[OF assms(1)])
  have shape: "core d p = bind (autostart_check d p) (core_command d p ''stop'')"
    using st assms(1) by (auto simp: core_def)
  have fails: "\<exists>e. fst (run d p w) = Inl e"
    unfolding run_def shape by (rule bind_fails) (rule k)
  obtain r sa where a: "autostart_check d p (init_state w) = (r, sa)"
    by (cases "autostart_check d p (init_state w)")
  have same: "snd (run d p w) = sa"
    using a by (cases r) (simp_all add: run_def shape bind_def core_command_stop[OF assms(1)])
  have res: "fst (run d p w) =
              (if truthy (p_name p)
               then Inl (AttributeError (quoted ''Virt'' @ '' object has no attribute '' @ quoted ''stop''))
               else Inl (FailJson ''stop requires 1 argument: guest''))"
    if "r = Inr res" for res
    using a that by (simp add: run_def shape bind_def core_command_stop[OF assms(1)])
  have none: "r = Inr [] \<and> sa = init_state w" if "p_autostart p = None"
    using a that by (simp add: autostart_check_def return_def)
  show ?thesis
    using fails same res none a
    by (auto simp: VM_COMMANDS_def ALL_COMMANDS_def init_state_def)
qed

theorem stop_command_always_fails_witness:
  "fst (run hv_driver (no_params\<lparr>p_command := Some ''stop'', p_name := Some ''alpha''\<rparr>) hv0)
     = Inl (AttributeError (quoted ''Virt'' @ '' object has no attribute '' @ quoted ''stop''))
   \<and> trace (snd (run hv_driver (no_params\<lparr>p_command := Some ''stop'', p_name := Some ''alpha''\<rparr>) hv0)) = []
   \<and> snd (run hv_driver (no_params\<lparr>p_command := Some ''stop'', p_name := Some ''alpha''\<rparr>) hv0)
     = init_state hv0"
  using stop_command_always_fails
    [of "no_params\<lparr>p_command := Some ''stop'', p_name := Some ''alpha''\<rparr>" hv_driver hv0]
  by (simp add: no_params_def autostart_check_def return_def init_state_def)

section \<open>Conflicting flags\<close>

lemma list_all_not_call:
  "list_all (\<lambda>e. \<not> event_call Q e) es \<Longrightarrow> \<not> list_ex Q (calls_of es)"
  by (induction es rule: calls_of.induct) simp_all

lemma adds_run:
  assumes "adds P (core d p)"
  shows "list_all P (trace (snd (run d p w)))"
proof -
  from assms obtain es where
    "trace (snd (core d p (init_state w))) = trace (init_state w) @ es" "list_all P es"
    unfolding adds_def by blast
  then show ?thesis by (simp add: run_def init_state_def)
qed

lemma quiet_not_UndefineFlags: "quiet (\<lambda>e. \<not> event_call is_UndefineFlags e)"
proof -
  have "\<And>x::'a call. \<not> mutating x \<Longrightarrow> \<not> is_UndefineFlags x"
    by (case_tac x) simp_all
  then show ?thesis by (simp add: quiet_def)
qed

text \<open>Without a desired state, \<open>core\<close> is the autostart check followed by the command.\<close>

lemma core_command_mode:
  assumes "p_command p = Some cmd" and "cmd \<noteq> []" and "\<not> truthy (p_state p)"
  shows "core d p =
      bind (case p_autostart p of
              None \<Rightarrow> return []
            | Some a \<Rightarrow> if cmd \<noteq> ''define'' then core_autostart d (p_uri p) (p_name p) a []
                        else return [])
        (core_command d p cmd)"
proof -
  have st: "p_state p = None \<or> p_state p = Some []"
    using assms(3) by (cases "p_state p") simp_all
  show ?thesis
  proof (cases "p_autostart p")
    case None
    then show ?thesis using st assms(1,2) by (auto simp: core_def autostart_check_def)
  next
    case (Some a)
    then show ?thesis using st assms(1,2) by (auto simp: core_def autostart_check_def)
  qed
qed


lemma undefine_flag_conflict:
  assumes "''nvram'' \<in> set fs" and "''keep_nvram'' \<in> set fs"
  shows "fst (undefine_flag (Some fs) force s)
     = Inl (ValueError (''Flags '' @ quoted (''nvram'' @ quoted '' and '' @ ''keep_nvram'')
                        @ '' are mutually exclusive''))
   \<and> trace (snd (undefine_flag (Some fs) force s)) = trace s
   \<and> snd (undefine_flag (Some fs) force s)
       = (if force = Some True
          then s\<lparr>warnings := warnings s @
                 [''Ignoring '' @ quoted ''force'' @ '', because '' @ quoted ''flags''
                  @ '' are provided.'']\<rparr>
          else s)"
  using assms by (simp add: undefine_flag_def monad_defs)

lemma core_command_undefine_conflict:
  assumes "''nvram'' \<in> set fs" and "''keep_nvram'' \<in> set fs" and "p_flags p = Some fs"
  shows "(\<exists>e. fst (core_command d p ''undefine'' res s) = Inl e)
   \<and> trace (snd (core_command d p ''undefine'' res s)) = trace s
   \<and> (truthy (p_name p) \<longrightarrow> core_command d p ''undefine'' res s
        = (Inl (ValueError (''Flags '' @ quoted (''nvram'' @ quoted '' and '' @ ''keep_nvram'')
                        @ '' are mutually exclusive'')),
           if p_force p = Some True
           then s\<lparr>warnings := warnings s @
                 [''Ignoring '' @ quoted ''force'' @ '', because '' @ quoted ''flags''
                  @ '' are provided.'']\<rparr>
           else s))"
proof (cases "truthy (p_name p)")
  case False
  then show ?thesis
    by (simp add: core_command_def VM_COMMANDS_def fail_json_def raise_def)
next
  case True
  then obtain g where g: "p_name p = Some g" by (cases "p_name p") simp_all
  obtain r s1 where u: "undefine_flag (Some fs) (p_force p) s = (r, s1)"
    by (cases "undefine_flag (Some fs) (p_force p) s :: (exn + nat) \<times> ('a, 'b) vstate")
  from undefine_flag_conflict[OF assms(1,2), of "p_force p" s] u
  have r: "r = Inl (ValueError (''Flags '' @ quoted (''nvram'' @ quoted '' and '' @ ''keep_nvram'')
                        @ '' are mutually exclusive''))"
    and s1: "s1 = (if p_force p = Some True
          then s\<lparr>warnings := warnings s @
                 [''Ignoring '' @ quoted ''force'' @ '', because '' @ quoted ''flags''
                  @ '' are provided.'']\<rparr>
          else s)"
    by simp_all
  have "core_command d p ''undefine'' res s
      = (Inl (ValueError (''Flags '' @ quoted (''nvram'' @ quoted '' and '' @ ''keep_nvram'')
                        @ '' are mutually exclusive'')), s1)"
    using True g u assms(3) r
    by (simp add: core_command_def VM_COMMANDS_def bind_def)
  then show ?thesis using s1 True by simp
qed

text \<open>
  Claim C5.  A flag list that holds both \<^verbatim>\<open>nvram\<close> and \<^verbatim>\<open>keep_nvram\<close> is rejected with
  the \<^verbatim>\<open>ValueError\<close> of line 589, whatever else it holds and whatever \<^verbatim>\<open>force\<close> is.  An
  invocation of \<^verbatim>\<open>undefine\<close> with such a list (and no desired state, which would replace
  the command) always fails and never issues an undefine call; with a guest and no
  autostart check before it, it fails with that error before any driver event.
\<close>

theorem conflicting_flags_rejected:
  fixes d :: "('w, 'h) driver" and s :: "('w1, 'h1) vstate"
  assumes "''nvram'' \<in> set fs" and "''keep_nvram'' \<in> set fs"
  shows "fst (undefine_flag (Some fs) force s)
       = Inl (ValueError (''Flags '' @ quoted (''nvram'' @ quoted '' and '' @ ''keep_nvram'')
                          @ '' are mutually exclusive''))
     \<and> (p_command p = Some ''undefine'' \<and> \<not> truthy (p_state p) \<and> p_flags p = Some fs \<longrightarrow>
          (\<exists>e. fst (run d p w) = Inl e)
          \<and> \<not> list_ex is_UndefineFlags (calls_of (trace (snd (run d p w))))
          \<and> (p_autostart p = None \<and> truthy (p_name p) \<longrightarrow>
                fst (run d p w)
                  = Inl (ValueError (''Flags '' @ quoted (''nvram'' @ quoted '' and '' @ ''keep_nvram'')
                          @ '' are mutually exclusive''))
                \<and> trace (snd (run d p w)) = []))"
proof (intro conjI impI)
  show "fst (undefine_flag (Some fs) force s)
       = Inl (ValueError (''Flags '' @ quoted (''nvram'' @ quoted '' and '' @ ''keep_nvram'')
                          @ '' are mutually exclusive''))"
    by (rule conjunct1[OF undefine_flag_conflict[OF assms]])
next
  assume h: "p_command p = Some ''undefine'' \<and> \<not> truthy (p_state p) \<and> p_flags p = Some fs"
  note cc = core_command_undefine_conflict[OF assms, of p d]
  let ?A = "case p_autostart p of None \<Rightarrow> return []
            | Some a \<Rightarrow> if ''undefine'' \<noteq> ''define''
                        then core_autostart d (p_uri p) (p_name p) a [] else return []"
  have core_eq: "core d p = bind ?A (core_command d p ''undefine'')"
    using h by (intro core_command_mode) simp_all
  let ?P = "\<lambda>e::'h event. \<not> event_call is_UndefineFlags e"
  have k: "\<And>res. adds ?P (core_command d p ''undefine'' res)"
    unfolding adds_def using cc h by simp
  have a: "adds ?P ?A"
    by (cases "p_autostart p")
       (simp_all add: adds_return adds_core_autostart[OF quiet_not_UndefineFlags])
  have "adds ?P (core d p)"
    unfolding core_eq by (intro adds_bind k a)
  from adds_run[OF this, of w]
  show "\<not> list_ex is_UndefineFlags (calls_of (trace (snd (run d p w))))"
    by (rule list_all_not_call)
  show "\<exists>e. fst (run d p w) = Inl e"
  proof -
    obtain r s1 where a: "?A (init_state w) = (r, s1)" by (cases "?A (init_state w)")
    show ?thesis
    proof (cases r)
      case (Inl e)
      then show ?thesis using a by (simp add: run_def core_eq bind_def)
    next
      case (Inr res)
      from cc[of res s1] h obtain e where "fst (core_command d p ''undefine'' res s1) = Inl e"
        by blast
      then show ?thesis using a Inr by (simp add: run_def core_eq bind_def)
    qed
  qed
  {
    assume h2: "p_autostart p = None \<and> truthy (p_name p)"
    have r: "run d p w = core_command d p ''undefine'' [] (init_state w)"
      using h2 by (simp add: run_def core_eq bind_def return_def)
    from cc[of "[]" "init_state w"] h h2
    show "fst (run d p w)
                  = Inl (ValueError (''Flags '' @ quoted (''nvram'' @ quoted '' and '' @ ''keep_nvram'')
                          @ '' are mutually exclusive''))"
      unfolding r by simp
    from cc[of "[]" "init_state w"] h
    show "trace (snd (run d p w)) = []"
      unfolding r by (simp add: init_state_def)
  }
qed

theorem conflicting_flags_rejected_witness:
  "fst (run hv_driver (no_params\<lparr>p_command := Some ''undefine'', p_name := Some ''gamma'',
          p_flags := Some [''managed_save'', ''keep_nvram'', ''nvram''], p_force := Some True\<rparr>) hv0)
     = Inl (ValueError (''Flags '' @ quoted (''nvram'' @ quoted '' and '' @ ''keep_nvram'')
                          @ '' are mutually exclusive''))
   \<and> trace (snd (run hv_driver (no_params\<lparr>p_command := Some ''undefine'', p_name := Some ''gamma'',
          p_flags := Some [''managed_save'', ''keep_nvram'', ''nvram''], p_force := Some True\<rparr>) hv0)) = []"
  using conflicting_flags_rejected
    [where fs = "[''managed_save'', ''keep_nvram'', ''nvram'']"
       and force = "Some True"
       and p = "no_params\<lparr>p_command := Some ''undefine'', p_name := Some ''gamma'',
          p_flags := Some [''managed_save'', ''keep_nvram'', ''nvram''], p_force := Some True\<rparr>"
       and d = hv_driver and w = hv0 and s = "init_state hv0 :: (hv, string) vstate"]
  by (simp add: no_params_def)

section \<open>Evaluating the operations on a guest that is found\<close>

lemma snd_bind_Inr: "fst (m s) = Inr x \<Longrightarrow> snd (bind m f s) = snd (f x (snd (m s)))"
  by (cases "m s") (simp add: bind_def)


lemma bind_Inl: "m s = (Inl e, s') \<Longrightarrow> bind m f s = (Inl e, s')"
  by (simp add: bind_def)


lemma find_vm_eval:
  assumes "drv_listAllDomains d (world s) = Inr vms"
    and "find (\<lambda>vm. drv_name d vm = g) vms = Some h"
  shows "LibvirtConnection_find_vm d c g s = (Inr h, s\<lparr>trace := trace s @ [Call c ListAllDomains]\<rparr>)"
  using assms by (simp add: LibvirtConnection_find_vm_def monad_defs Let_def)

lemma query_eval:
  "query c x f s = (lv_result (f (world s)), s\<lparr>trace := trace s @ [Call c x]\<rparr>)"
  by (simp add: query_def lv_result_def Let_def split: sum.split prod.split)

lemma command_eval:
  "command c x f s =
     (lv_result (fst (f (world s))),
      s\<lparr>world := snd (f (world s)), trace := trace s @ [Call c x]\<rparr>)"
  by (simp add: command_def lv_result_def Let_def split: sum.split prod.split)







lemma changed_update_msg [simp]:
  "changed (AList.update ''msg'' v (AList.update ''changed'' (VBool True) res))"
  by (simp add: changed_def update_conv')





lemma lv_result_Inr [simp]: "lv_result (Inr v) = Inr v"
  by (simp add: lv_result_def)

lemma lv_result_Inl [simp]: "lv_result (Inl (c, msg)) = Inl (LibvirtError c msg)"
  by (simp add: lv_result_def)

lemma changed_Nil [simp]: "\<not> changed []"
  by (simp add: changed_def)

section \<open>Defining a domain\<close>

lemma re_search_name_nonempty: "re_search_name xml = Some n \<Longrightarrow> xml \<noteq> []"
  by (cases xml) simp_all

lemma core_define_mode:
  assumes "p_command p = Some ''define''" and "\<not> truthy (p_state p)"
  shows "run d p w =
     bind (core_define d (p_uri p) (p_xml p) (p_name p) (p_autostart p) [])
       (\<lambda>res'. return (VIRT_SUCCESS, res')) (init_state w)"
proof -
  have "core d p = bind (case p_autostart p of None \<Rightarrow> return []
            | Some a \<Rightarrow> if ''define'' \<noteq> ''define''
                        then core_autostart d (p_uri p) (p_name p) a [] else return [])
        (core_command d p ''define'')"
    using assms by (intro core_command_mode) simp_all
  then show ?thesis
    by (cases "p_autostart p")
       (simp_all add: run_def bind_def return_def core_command_def VM_COMMANDS_def)
qed


lemma bind_fst_Inr: "fst (m s) = Inr x \<Longrightarrow> bind m f s = f x (snd (m s))"
  by (cases "m s") (simp add: bind_def)

text \<open>Lines 554-559: the inactive XML of the domain named in the XML text, if there is one.\<close>

lemma existing_domain_xml_eval:
  assumes "connects d uri (world s)" and "drv_listAllDomains d (world s) = Inr vms"
    and "(find (\<lambda>vm. drv_name d vm = n) vms = Some h
            \<and> drv_XMLDesc d (world s) h VIR_DOMAIN_XML_INACTIVE = Inr old \<and> ex = Some old)
         \<or> (find (\<lambda>vm. drv_name d vm = n) vms = None \<and> ex = None)"
  shows "fst (try_except
                (bind (Virt_get_vm d uri n) (\<lambda>vm.
                 bind self_conn (\<lambda>c.
                 bind (query c (XMLDesc vm VIR_DOMAIN_XML_INACTIVE)
                         (\<lambda>w. drv_XMLDesc d w vm VIR_DOMAIN_XML_INACTIVE)) (\<lambda>old.
                   return (Some old)))))
                is_VMNotFound (\<lambda>_. return None) s) = Inr ex
     \<and> world (snd (try_except
                (bind (Virt_get_vm d uri n) (\<lambda>vm.
                 bind self_conn (\<lambda>c.
                 bind (query c (XMLDesc vm VIR_DOMAIN_XML_INACTIVE)
                         (\<lambda>w. drv_XMLDesc d w vm VIR_DOMAIN_XML_INACTIVE)) (\<lambda>old.
                   return (Some old)))))
                is_VMNotFound (\<lambda>_. return None) s)) = world s
     \<and> mutations (trace (snd (try_except
                (bind (Virt_get_vm d uri n) (\<lambda>vm.
                 bind self_conn (\<lambda>c.
                 bind (query c (XMLDesc vm VIR_DOMAIN_XML_INACTIVE)
                         (\<lambda>w. drv_XMLDesc d w vm VIR_DOMAIN_XML_INACTIVE)) (\<lambda>old.
                   return (Some old)))))
                is_VMNotFound (\<lambda>_. return None) s))) = mutations (trace s)"
  using assms
  by (auto simp: Virt_get_vm_def LibvirtConnection_find_vm_def LibvirtConnection_init_def
      get_conn_def self_conn_def return_def raise_def bind_def try_except_def query_def
      connects_def Let_def)

text \<open>Lines 560-570: the definition, and the comparison of the XML before and after.\<close>

lemma define_step_eval:
  assumes "connects d uri (world s)"
    and "(ex = Some old \<and> old \<noteq> [] \<and> drv_defineXML d (world s) xml = (Inr nd, w')
            \<and> drv_XMLDesc d w' nd VIR_DOMAIN_XML_INACTIVE = Inr new
            \<and> rd = (if old = new then res
                    else [(''changed'', VBool True), (''change_reason'', VStr ''config changed'')]))
         \<or> (\<not> truthy ex \<and> drv_defineXML d (world s) xml = (Inr nd, w')
            \<and> rd = [(''changed'', VBool True), (''created'', VStr (drv_name d nd))])
         \<or> (drv_defineXML d (world s) xml = (Inl (9, msg), w') \<and> rd = res)"
  shows "fst (try_except
                (bind (Virt_define d uri xml) (\<lambda>domain.
                   if truthy ex then
                     bind self_conn (\<lambda>c.
                     bind (query c (XMLDesc domain VIR_DOMAIN_XML_INACTIVE)
                             (\<lambda>w. drv_XMLDesc d w domain VIR_DOMAIN_XML_INACTIVE)) (\<lambda>new.
                       if ex \<noteq> Some new then
                         return [(''changed'', VBool True),
                                 (''change_reason'', VStr ''config changed'')]
                       else return res))
                   else
                     return [(''changed'', VBool True),
                             (''created'', VStr (drv_name d domain))]))
                is_libvirtError
                (\<lambda>e. case e of
                        LibvirtError code msg \<Rightarrow>
                          if code \<noteq> 9 then fail_json (''libvirtError: '' @ msg)
                          else return res
                      | _ \<Rightarrow> raise e) s) = Inr rd
     \<and> world (snd (try_except
                (bind (Virt_define d uri xml) (\<lambda>domain.
                   if truthy ex then
                     bind self_conn (\<lambda>c.
                     bind (query c (XMLDesc domain VIR_DOMAIN_XML_INACTIVE)
                             (\<lambda>w. drv_XMLDesc d w domain VIR_DOMAIN_XML_INACTIVE)) (\<lambda>new.
                       if ex \<noteq> Some new then
                         return [(''changed'', VBool True),
                                 (''change_reason'', VStr ''config changed'')]
                       else return res))
                   else
                     return [(''changed'', VBool True),
                             (''created'', VStr (drv_name d domain))]))
                is_libvirtError
                (\<lambda>e. case e of
                        LibvirtError code msg \<Rightarrow>
                          if code \<noteq> 9 then fail_json (''libvirtError: '' @ msg)
                          else return res
                      | _ \<Rightarrow> raise e) s)) = w'
     \<and> mutations (trace (snd (try_except
                (bind (Virt_define d uri xml) (\<lambda>domain.
                   if truthy ex then
                     bind self_conn (\<lambda>c.
                     bind (query c (XMLDesc domain VIR_DOMAIN_XML_INACTIVE)
                             (\<lambda>w. drv_XMLDesc d w domain VIR_DOMAIN_XML_INACTIVE)) (\<lambda>new.
                       if ex \<noteq> Some new then
                         return [(''changed'', VBool True),
                                 (''change_reason'', VStr ''config changed'')]
                       else return res))
                   else
                     return [(''changed'', VBool True),
                             (''created'', VStr (drv_name d domain))]))
                is_libvirtError
                (\<lambda>e. case e of
                        LibvirtError code msg \<Rightarrow>
                          if code \<noteq> 9 then fail_json (''libvirtError: '' @ msg)
                          else return res
                      | _ \<Rightarrow> raise e) s))) = mutations (trace s) @ [DefineXML xml]"
  using assms
  by (auto simp: Virt_define_def LibvirtConnection_define_from_xml_def LibvirtConnection_init_def
      get_conn_def self_conn_def return_def raise_def fail_json_def bind_def try_except_def
      query_def command_def connects_def Let_def)

lemma core_define_step:
  fixes d :: "('w, 'h) driver"
  assumes n: "re_search_name xml = Some n"
    and c: "connects d uri w" and l: "drv_listAllDomains d w = Inr vms"
    and k: "(find (\<lambda>vm. drv_name d vm = n) vms = Some h
            \<and> drv_XMLDesc d w h VIR_DOMAIN_XML_INACTIVE = Inr old \<and> old \<noteq> []
            \<and> drv_defineXML d w xml = (Inr nd, w')
            \<and> drv_XMLDesc d w' nd VIR_DOMAIN_XML_INACTIVE = Inr new
            \<and> rd = (if old = new then []
                    else [(''changed'', VBool True), (''change_reason'', VStr ''config changed'')]))
         \<or> (find (\<lambda>vm. drv_name d vm = n) vms = None
            \<and> drv_defineXML d w xml = (Inr nd, w')
            \<and> rd = [(''changed'', VBool True), (''created'', VStr (drv_name d nd))])
         \<or> (find (\<lambda>vm. drv_name d vm = n) vms = Some h
            \<and> drv_XMLDesc d w h VIR_DOMAIN_XML_INACTIVE = Inr old
            \<and> drv_defineXML d w xml = (Inl (9, msg), w')
            \<and> rd = [])"
  shows "\<exists>s. world s = w' \<and> mutations (trace s) = [DefineXML xml]
           \<and> core_define d uri (Some xml) guest au [] (init_state w)
             = (case au of
                  None \<Rightarrow> return rd
                | Some a \<Rightarrow>
                    bind (Virt_autostart d uri n a) (\<lambda>b.
                      if b then return [(''changed'', VBool True),
                                        (''change_reason'', VStr ''autostart'')]
                      else return rd)) s"
proof -
  let ?W = "if truthy guest
            then warn (quoted ''xml'' @ '' is given - ignoring '' @ quoted ''name'')
            else (return () :: ('w, 'h, unit) virt_m)"
  let ?E = "try_except
                (bind (Virt_get_vm d uri n) (\<lambda>vm.
                 bind self_conn (\<lambda>c.
                 bind (query c (XMLDesc vm VIR_DOMAIN_XML_INACTIVE)
                         (\<lambda>w. drv_XMLDesc d w vm VIR_DOMAIN_XML_INACTIVE)) (\<lambda>old.
                   return (Some old)))))
                is_VMNotFound (\<lambda>_. return None)"
  let ?D = "\<lambda>ex. try_except
                (bind (Virt_define d uri xml) (\<lambda>domain.
                   if truthy ex then
                     bind self_conn (\<lambda>c.
                     bind (query c (XMLDesc domain VIR_DOMAIN_XML_INACTIVE)
                             (\<lambda>w. drv_XMLDesc d w domain VIR_DOMAIN_XML_INACTIVE)) (\<lambda>new.
                       if ex \<noteq> Some new then
                         return [(''changed'', VBool True),
                                 (''change_reason'', VStr ''config changed'')]
                       else return []))
                   else
                     return [(''changed'', VBool True),
                             (''created'', VStr (drv_name d domain))]))
                is_libvirtError
                (\<lambda>e. case e of
                        LibvirtError code msg \<Rightarrow>
                          if code \<noteq> 9 then fail_json (''libvirtError: '' @ msg)
                          else return []
                      | _ \<Rightarrow> raise e)"
  let ?A = "\<lambda>res'. case au of
                  None \<Rightarrow> return res'
                | Some a \<Rightarrow>
                    bind (Virt_autostart d uri n a) (\<lambda>b.
                      if b then return [(''changed'', VBool True),
                                        (''change_reason'', VStr ''autostart'')]
                      else return res')"
  have x: "xml \<noteq> []" using n by (rule re_search_name_nonempty)
  have shape: "core_define d uri (Some xml) guest au []
      = bind ?W (\<lambda>_. bind ?E (\<lambda>ex. bind (?D ex) ?A))"
    using n x by (simp add: core_define_def)
  let ?sw = "snd (?W (init_state w))"
  have w: "fst (?W (init_state w)) = Inr ()" "world ?sw = w" "mutations (trace ?sw) = []"
    by (simp_all add: warn_def return_def init_state_def)
  obtain ex where ex: "(find (\<lambda>vm. drv_name d vm = n) vms = Some h
            \<and> drv_XMLDesc d (world ?sw) h VIR_DOMAIN_XML_INACTIVE = Inr old \<and> ex = Some old)
         \<or> (find (\<lambda>vm. drv_name d vm = n) vms = None \<and> ex = None)"
    using k w(2) by auto
  let ?se = "snd (?E ?sw)"
  from existing_domain_xml_eval[of d uri ?sw vms n h old ex] c l ex w
  have e: "fst (?E ?sw) = Inr ex" "world ?se = w" "mutations (trace ?se) = []"
    by simp_all
  let ?sd = "snd (?D ex ?se)"
  have kd: "(ex = Some old \<and> old \<noteq> [] \<and> drv_defineXML d (world ?se) xml = (Inr nd, w')
            \<and> drv_XMLDesc d w' nd VIR_DOMAIN_XML_INACTIVE = Inr new
            \<and> rd = (if old = new then []
                    else [(''changed'', VBool True), (''change_reason'', VStr ''config changed'')]))
         \<or> (\<not> truthy ex \<and> drv_defineXML d (world ?se) xml = (Inr nd, w')
            \<and> rd = [(''changed'', VBool True), (''created'', VStr (drv_name d nd))])
         \<or> (drv_defineXML d (world ?se) xml = (Inl (9, msg), w') \<and> rd = [])"
    using k ex e(2) w(2) by auto
  from define_step_eval[of d uri ?se ex old xml nd w' new rd "[]" msg] c kd e
  have dd: "fst (?D ex ?se) = Inr rd" "world ?sd = w'" "mutations (trace ?sd) = [DefineXML xml]"
    by simp_all
  have "core_define d uri (Some xml) guest au [] (init_state w) = ?A rd ?sd"
    unfolding shape
    by (simp only: bind_fst_Inr[of ?W, OF w(1)] bind_fst_Inr[of ?E, OF e(1)]
        bind_fst_Inr[of "?D ex", OF dd(1)])
  then show ?thesis using dd(2,3) by blast
qed





section \<open>Reasoning about outcomes\<close>

lemma hoareD: "hoare P m Q \<Longrightarrow> P s \<Longrightarrow> m s = (r, s') \<Longrightarrow> Q r s'"
  by (auto simp: hoare_def)

lemma hoare_return: "(\<And>s. P s \<Longrightarrow> Q (Inr x) s) \<Longrightarrow> hoare P (return x) Q"
  by (simp add: hoare_def return_def)

lemma hoare_raise: "(\<And>s. P s \<Longrightarrow> Q (Inl e) s) \<Longrightarrow> hoare P (raise e) Q"
  by (simp add: hoare_def raise_def)

lemma hoare_fail_json: "(\<And>s. P s \<Longrightarrow> Q (Inl (FailJson msg)) s) \<Longrightarrow> hoare P (fail_json msg) Q"
  by (simp add: hoare_def fail_json_def raise_def)

lemma hoare_bind:
  assumes "hoare P m R" and "\<And>x. hoare (R (Inr x)) (f x) Q"
    and "\<And>e s. R (Inl e) s \<Longrightarrow> Q (Inl e) s"
  shows "hoare P (bind m f) Q"
  unfolding hoare_def
proof (intro allI impI)
  fix s assume p: "P s"
  obtain r s1 where ms: "m s = (r, s1)" by (cases "m s")
  from assms(1) p ms have r: "R r s1" by (auto simp: hoare_def)
  show "Q (fst (bind m f s)) (snd (bind m f s))"
  proof (cases r)
    case (Inl e)
    then show ?thesis using ms r assms(3) by (simp add: bind_def)
  next
    case (Inr x)
    then show ?thesis using ms r assms(2)[of x] by (simp add: bind_def hoare_def)
  qed
qed

lemma hoare_try_except:
  assumes "hoare P m R" and "\<And>e. p e \<Longrightarrow> hoare (R (Inl e)) (h e) Q"
    and "\<And>e s. \<not> p e \<Longrightarrow> R (Inl e) s \<Longrightarrow> Q (Inl e) s"
    and "\<And>x s. R (Inr x) s \<Longrightarrow> Q (Inr x) s"
  shows "hoare P (try_except m p h) Q"
  unfolding hoare_def
proof (intro allI impI)
  fix s assume p: "P s"
  obtain r s1 where ms: "m s = (r, s1)" by (cases "m s")
  from assms(1) p ms have r: "R r s1" by (auto simp: hoare_def)
  show "Q (fst (try_except m p h s)) (snd (try_except m p h s))"
  proof (cases r)
    case (Inr x)
    then show ?thesis using ms r assms(4) by (simp add: try_except_def)
  next
    case (Inl e)
    then show ?thesis using ms r assms(2)[of e] assms(3)[of e]
      by (cases "p e") (simp_all add: try_except_def hoare_def)
  qed
qed

lemma hoare_weaken:
  "hoare P' m Q' \<Longrightarrow> (\<And>s. P s \<Longrightarrow> P' s) \<Longrightarrow> (\<And>r s. Q' r s \<Longrightarrow> Q r s) \<Longrightarrow> hoare P m Q"
  by (simp add: hoare_def)

lemma hoare_if: "hoare P m1 Q \<Longrightarrow> hoare P m2 Q \<Longrightarrow> hoare P (if b then m1 else m2) Q"
  by simp

text \<open>An operation that adds no mutating call leaves the mutating calls as they are.\<close>

lemma list_all_no_mutations:
  "list_all (\<lambda>e. \<not> event_call mutating e) es \<Longrightarrow> mutations es = []"
  by (induction es rule: calls_of.induct) simp_all

lemma quiet_not_mutating: "quiet (\<lambda>e. \<not> event_call mutating e)"
  by (simp add: quiet_def)

lemma adds_keeps_mutations:
  fixes m :: "('w, 'h, 'a) virt_m"
  assumes "adds (\<lambda>e. \<not> event_call mutating e) m"
  shows "hoare (\<lambda>s. mutations (trace s) = t) m (\<lambda>r s. mutations (trace s) = t)"
  unfolding hoare_def
proof (intro allI impI)
  fix s :: "('w, 'h) vstate" assume t: "mutations (trace s) = t"
  from assms obtain es where "trace (snd (m s)) = trace s @ es"
    "list_all (\<lambda>e. \<not> event_call mutating e) es"
    unfolding adds_def by blast
  then show "mutations (trace (snd (m s))) = t"
    using t by (simp add: list_all_no_mutations)
qed

lemma hoare_reports_change:
  "hoare P (bind m (\<lambda>x. return (VIRT_SUCCESS,
       AList.update ''msg'' (VInt x) (AList.update ''changed'' (VBool True) res))))
     (keeps_changed res U)"
  by (rule hoare_bind[where R = "\<lambda>_ _. True"])
     (simp_all add: hoare_def return_def keeps_changed_def)

lemma hoare_core_state:
  fixes d :: "('w, 'h) driver" and t :: "'h call list"
  shows "hoare (\<lambda>s. mutations (trace s) = t) (core_state d uri st guest res)
     (keeps_changed res (\<lambda>s. mutations (trace s) = t))"
proof -
  let ?U = "\<lambda>s::('w, 'h) vstate. mutations (trace s) = t"
  have status: "hoare ?U (Virt_status d uri g) (\<lambda>r. ?U)" for g
    by (rule adds_keeps_mutations[OF adds_status[OF quiet_not_mutating]])
  have keep: "hoare ?U (return (VIRT_SUCCESS, res)) (keeps_changed res ?U)"
    by (simp add: hoare_def return_def keeps_changed_def)
  have err: "\<And>e s. keeps_changed res ?U (Inl e) s"
    by (simp add: keeps_changed_def)
  have fail: "hoare ?U (fail_json msg) (keeps_changed res ?U)" for msg
    by (simp add: hoare_def fail_json_def raise_def keeps_changed_def)
  show ?thesis
    unfolding core_state_def
    by (cases guest; simp add: fail)
       (intro conjI impI hoare_bind[OF status] hoare_if hoare_reports_change keep err fail)
qed

lemma adds_case_prod: "(\<And>a b. adds P (f a b)) \<Longrightarrow> adds P (case x of (a, b) \<Rightarrow> f a b)"
  by (cases x) simp

lemma adds_LC_get_autostart:
  "P (Call c (LookupByName g)) \<Longrightarrow> (\<And>h. P (Call c (Autostart h)))
     \<Longrightarrow> adds P (LibvirtConnection_get_autostart d c g)"
  unfolding LibvirtConnection_get_autostart_def
  by (intro adds_bind adds_query) simp_all

lemma adds_LC_get_status:
  "P (Call c ListAllDomains) \<Longrightarrow> (\<And>h. P (Call c (Info h)))
     \<Longrightarrow> adds P (LibvirtConnection_get_status d c g)"
  unfolding LibvirtConnection_get_status_def
  by (intro adds_bind adds_query adds_find_vm adds_return) simp_all

lemma adds_state_loop: "quiet P \<Longrightarrow> adds P (state_loop d vms acc)"
proof (induction vms arbitrary: acc)
  case Nil
  then show ?case by (simp add: adds_return)
next
  case (Cons vm vms)
  from Cons.prems have q: "\<And>c x. \<not> mutating x \<Longrightarrow> P (Call c x)" by (simp add: quiet_def)
  show ?case
    unfolding state_loop.simps
    by (intro adds_bind adds_self_conn adds_LC_get_status Cons.IH[OF Cons.prems] q) simp_all
qed

lemma adds_Virt_state: "quiet P \<Longrightarrow> adds P (Virt_state d uri)"
  unfolding Virt_state_def by (intro adds_bind adds_list_vms adds_state_loop)

lemma adds_info_loop: "quiet P \<Longrightarrow> adds P (info_loop d vms acc)"
proof (induction vms arbitrary: acc)
  case Nil
  then show ?case by (simp add: adds_return)
next
  case (Cons vm vms)
  from Cons.prems have q: "\<And>c x. \<not> mutating x \<Longrightarrow> P (Call c x)" by (simp add: quiet_def)
  show ?case
    unfolding info_loop.simps
    by (intro adds_bind adds_self_conn adds_find_vm adds_query adds_LC_get_autostart
        adds_case_prod Cons.IH[OF Cons.prems] q) simp_all
qed

lemma adds_Virt_info: "quiet P \<Longrightarrow> adds P (Virt_info d uri)"
  unfolding Virt_info_def by (intro adds_bind adds_list_vms adds_info_loop)

lemma adds_Virt_nodeinfo: "quiet P \<Longrightarrow> adds P (Virt_nodeinfo d uri)"
proof -
  assume qp: "quiet P"
  then have q: "\<And>c x. \<not> mutating x \<Longrightarrow> P (Call c x)" and k: "\<And>k b. P (Connect k b)"
    by (simp_all add: quiet_def)
  show ?thesis
    unfolding Virt_nodeinfo_def LibvirtConnection_nodeinfo_def
    by (intro adds_bind adds_get_conn adds_self_conn adds_query adds_case_prod adds_return k q)
       simp_all
qed

lemma adds_Virt_virttype: "quiet P \<Longrightarrow> adds P (Virt_virttype d uri)"
  unfolding Virt_virttype_def LibvirtConnection_get_type_def quiet_def
  by (intro adds_bind adds_get_conn adds_query) simp_all

lemma adds_Virt_freemem: "quiet P \<Longrightarrow> adds P (Virt_freemem d uri)"
  unfolding Virt_freemem_def LibvirtConnection_getFreeMemory_def quiet_def
  by (intro adds_bind adds_get_conn adds_self_conn adds_query) simp_all

lemma adds_Virt_hasattr: "adds P (Virt_hasattr d cmd)"
  by (simp add: adds_def Virt_hasattr_def)

lemma adds_py_object_call:
  "adds P (case py_object_call d cmd of
             Some (Inr v) \<Rightarrow> return v
           | Some (Inl e) \<Rightarrow> raise e
           | None \<Rightarrow> raise (AttributeError cmd))"
  by (simp add: adds_return adds_raise split: option.split sum.split)

lemma adds_Virt_getattr0: "quiet P \<Longrightarrow> adds P (Virt_getattr0 d uri cmd)"
proof -
  assume q: "quiet P"
  then have gc: "adds P (get_conn d uri)"
    by (intro adds_get_conn) (simp add: quiet_def)
  show ?thesis
    unfolding Virt_getattr0_def
    by (intro adds_if adds_bind adds_return adds_raise adds_Virt_state adds_Virt_info
        adds_Virt_nodeinfo adds_list_vms adds_Virt_virttype adds_Virt_freemem gc
        adds_py_object_call q)
qed

lemma adds_query_command:
  assumes "quiet P" and "cmd \<in> set QUERY_COMMANDS"
  shows "adds P (core_command d p cmd res)"
proof -
  have host: "adds P (bind (Virt_hasattr d cmd) (\<lambda>h. if h
      then bind (Virt_getattr0 d (p_uri p) cmd) (\<lambda>r. return (VIRT_SUCCESS, wrap cmd r))
      else fail_json (''Command '' @ cmd @ '' not recognized'')))"
    by (intro adds_bind adds_Virt_hasattr adds_if adds_Virt_getattr0[OF assms(1)] adds_return
        adds_fail_json)
  have guest: "adds P (bind (Virt_getattr_guest d (p_uri p) cmd g) (\<lambda>r. return (VIRT_SUCCESS, wrap cmd r)))"
    if "cmd = ''get_xml'' \<or> cmd = ''status''" for g
    using that unfolding Virt_getattr_guest_def
    by (auto intro!: adds_bind adds_return adds_get_xml[OF assms(1)] adds_status[OF assms(1)])
  from assms(2) consider "cmd = ''get_xml'' \<or> cmd = ''status''"
    | "cmd \<notin> set VM_COMMANDS"
    by (auto simp: QUERY_COMMANDS_def VM_COMMANDS_def)
  then show ?thesis
  proof cases
    case 1
    then show ?thesis
      using guest
      by (cases "p_name p") (auto simp: core_command_def VM_COMMANDS_def adds_fail_json)
  next
    case 2
    then show ?thesis using host by (simp add: core_command_def)
  qed
qed

text \<open>The autostart check reports a change whenever it issues a mutating call.\<close>

lemma hoare_Virt_autostart:
  fixes d :: "('w, 'h) driver" and t :: "'h call list"
  shows "hoare (\<lambda>s. mutations (trace s) = t) (Virt_autostart d uri g a)
     (\<lambda>r s. case r of Inl _ \<Rightarrow> True | Inr b \<Rightarrow> \<not> b \<longrightarrow> mutations (trace s) = t)"
proof -
  let ?U = "\<lambda>s::('w, 'h) vstate. mutations (trace s) = t"
  let ?Q = "\<lambda>(r::exn + bool) (s::('w, 'h) vstate).
              case r of Inl _ \<Rightarrow> True | Inr b \<Rightarrow> \<not> b \<longrightarrow> mutations (trace s) = t"
  have q: "\<And>k b. \<not> event_call mutating (Connect k b :: 'h event)" by simp
  have gc: "hoare ?U (get_conn d uri) (\<lambda>r. ?U)"
    by (rule adds_keeps_mutations[OF adds_get_conn]) simp
  have sc: "hoare ?U self_conn (\<lambda>r. ?U)"
    by (rule adds_keeps_mutations[OF adds_self_conn])
  have ga: "hoare ?U (LibvirtConnection_get_autostart d c g) (\<lambda>r. ?U)" for c
    by (rule adds_keeps_mutations[OF adds_LC_get_autostart]) simp_all
  have set: "hoare ?U (bind self_conn (\<lambda>c'.
         bind (LibvirtConnection_set_autostart d c' g a) (\<lambda>_. return True))) ?Q"
    by (intro hoare_bind[where R = "\<lambda>_ _. True"]) (simp_all add: hoare_def return_def)
  have keep: "hoare ?U (return False) ?Q"
    by (simp add: hoare_def return_def)
  show ?thesis
    unfolding Virt_autostart_def
    by (intro hoare_bind[OF gc] hoare_bind[OF sc] hoare_bind[OF ga] hoare_if set keep) simp_all
qed

lemma hoare_core_autostart:
  fixes d :: "('w, 'h) driver" and t :: "'h call list"
  shows "hoare (\<lambda>s. mutations (trace s) = t) (core_autostart d uri guest a res)
     (\<lambda>r s. case r of
               Inl _ \<Rightarrow> True
             | Inr res' \<Rightarrow> \<exists>b. res' = AList.update ''changed'' (VBool b) res
                             \<and> (\<not> b \<longrightarrow> mutations (trace s) = t))"
proof -
  let ?U = "\<lambda>s::('w, 'h) vstate. mutations (trace s) = t"
  let ?Q = "\<lambda>(r::exn + pydict) (s::('w, 'h) vstate).
              case r of
               Inl _ \<Rightarrow> True
             | Inr res' \<Rightarrow> \<exists>b. res' = AList.update ''changed'' (VBool b) res
                             \<and> (\<not> b \<longrightarrow> mutations (trace s) = t)"
  have fail: "hoare ?U (fail_json msg) ?Q" for msg
    by (simp add: hoare_def fail_json_def raise_def)
  have look: "hoare ?U
      (try_except (bind (Virt_get_vm d uri g) (\<lambda>_. return ())) is_VMNotFound
         (\<lambda>_. fail_json msg)) (\<lambda>r. ?U)" for g msg
    by (rule adds_keeps_mutations)
       (intro adds_try_except adds_bind adds_return adds_fail_json
          adds_get_vm[OF quiet_not_mutating])
  have rest: "hoare ?U (bind (Virt_autostart d uri g a)
        (\<lambda>b. return (AList.update ''changed'' (VBool b) res))) ?Q" for g
    by (rule hoare_bind[OF hoare_Virt_autostart])
       (auto simp: hoare_def return_def)
  show ?thesis
  proof (cases guest)
    case None
    then show ?thesis by (simp add: core_autostart_def fail)
  next
    case (Some g)
    show ?thesis
    proof (cases "g = []")
      case True
      then show ?thesis using Some by (simp add: core_autostart_def fail)
    next
      case False
      have "hoare ?U (bind (try_except (bind (Virt_get_vm d uri g) (\<lambda>_. return ())) is_VMNotFound
               (\<lambda>_. fail_json (''domain '' @ g @ '' not found'')))
             (\<lambda>_. bind (Virt_autostart d uri g a)
                (\<lambda>b. return (AList.update ''changed'' (VBool b) res)))) ?Q"
        by (intro hoare_bind[OF look] rest) simp
      then show ?thesis using Some False by (simp add: core_autostart_def)
    qed
  qed
qed

section \<open>A result that is not changed\<close>

text \<open>
  The autostart check as \<open>core\<close> runs it (lines 494-501): skipped without the parameter
  and for \<^verbatim>\<open>define\<close>.
\<close>

lemma bind_return_left: "bind (return x) f = f x"
  by (simp add: bind_def return_def)

lemma core_state_shape:
  assumes "p_state p = Some st" and "st \<noteq> []" and "p_command p \<noteq> Some ''list_vms''"
  shows "core d p =
     bind (case p_autostart p of
             None \<Rightarrow> return []
           | Some a \<Rightarrow> if p_command p \<noteq> Some ''define''
                       then core_autostart d (p_uri p) (p_name p) a [] else return [])
       (core_state d (p_uri p) st (p_name p))"
  using assms by (cases "p_autostart p") (auto simp: core_def autostart_check_def)

lemma core_autostart_only:
  assumes "\<not> truthy (p_state p)" and "\<not> truthy (p_command p)"
  shows "core d p =
     (case p_autostart p of
        None \<Rightarrow> fail_json ''expected state or command parameter to be specified''
      | Some a \<Rightarrow> bind (core_autostart d (p_uri p) (p_name p) a [])
                    (\<lambda>res. return (VIRT_SUCCESS, res)))"
proof -
  have st: "p_state p = None \<or> p_state p = Some []"
    using assms(1) by (cases "p_state p") simp_all
  have cm: "p_command p = None \<or> p_command p = Some []"
    using assms(2) by (cases "p_command p") simp_all
  show ?thesis
    using st cm
    by (cases "p_autostart p") (auto simp: core_def autostart_check_def bind_return_left)
qed

lemma changed_autostart_result [simp]:
  "changed [(''changed'', VBool b)] = b"
  by (simp add: changed_def)

lemma hoare_autostart_block:
  fixes d :: "('w, 'h) driver" and t :: "'h call list"
  shows "hoare (\<lambda>s. mutations (trace s) = t)
     (case au of
        None \<Rightarrow> return []
      | Some a \<Rightarrow> if c then core_autostart d uri guest a [] else return [])
     (\<lambda>r s. case r of Inl _ \<Rightarrow> True
                      | Inr res \<Rightarrow> \<not> changed res \<longrightarrow> mutations (trace s) = t)"
proof -
  have r: "hoare (\<lambda>s::('w, 'h) vstate. mutations (trace s) = t) (return [])
     (\<lambda>r s. case r of Inl _ \<Rightarrow> True
                      | Inr res \<Rightarrow> \<not> changed res \<longrightarrow> mutations (trace s) = t)"
    by (simp add: hoare_def return_def)
  have a: "hoare (\<lambda>s::('w, 'h) vstate. mutations (trace s) = t) (core_autostart d uri guest a [])
     (\<lambda>r s. case r of Inl _ \<Rightarrow> True
                      | Inr res \<Rightarrow> \<not> changed res \<longrightarrow> mutations (trace s) = t)" for a
    by (rule hoare_weaken[OF hoare_core_autostart]) (auto split: sum.splits)
  show ?thesis
    by (cases au) (simp_all add: r a)
qed

lemma run_no_mutations:
  assumes "adds (\<lambda>e. \<not> event_call mutating e) (core d p)"
  shows "mutations (trace (snd (run d p w))) = []"
  using adds_run[OF assms, of w] by (rule list_all_no_mutations)

lemmas core_defs =
  core_def autostart_check_def core_autostart_def core_state_def core_command_def Virt_getattr_guest_def
  VM_COMMANDS_def

text \<open>
  Claim C2 as it is written fails for the commands that act on a guest: \<^verbatim>\<open>start\<close> issues
  the driver's create call, and the result \<^verbatim>\<open>{start: 0}\<close> has no \<^verbatim>\<open>changed\<close> key.
\<close>

theorem unchanged_after_start_counterexample:
  "fst (run hv_driver (no_params\<lparr>p_command := Some ''start'', p_name := Some ''gamma''\<rparr>) hv0)
     = Inr (VIRT_SUCCESS, [(''start'', VInt 0)])
   \<and> \<not> changed [(''start'', VInt 0)]
   \<and> mutations (trace (snd (run hv_driver
         (no_params\<lparr>p_command := Some ''start'', p_name := Some ''gamma''\<rparr>) hv0)))
     = [Create ''gamma'']"
  by (simp add: core_defs monad_defs LibvirtConnection_defs Virt_defs hv_defs changed_def Let_def)

text \<open>
  Claim C2, amended.  For every invocation that gives a desired state, or gives no
  command, or gives one of the reading commands (\<open>QUERY_COMMANDS\<close>) without an
  autostart parameter: if the returned result has no true \<^verbatim>\<open>changed\<close>, no mutating driver
  call was issued.
\<close>

theorem unchanged_means_no_mutation:
  fixes d :: "('w, 'h) driver"
  assumes "truthy (p_state p) \<or> \<not> truthy (p_command p)
           \<or> (p_autostart p = None \<and> (\<exists>c \<in> set QUERY_COMMANDS. p_command p = Some c))"
    and "fst (run d p w) = Inr (rc, res)" and "\<not> changed res"
  shows "mutations (trace (snd (run d p w))) = []"
proof -
  let ?U = "\<lambda>s::('w, 'h) vstate. mutations (trace s) = []"
  let ?P = "\<lambda>e::'h event. \<not> event_call mutating e"
  have init: "?U (init_state w)" by (simp add: init_state_def)
  consider
    (override) "truthy (p_state p)" "p_command p = Some ''list_vms''"
    | (state) st where "p_state p = Some st" "st \<noteq> []" "p_command p \<noteq> Some ''list_vms''"
    | (only) "\<not> truthy (p_state p)" "\<not> truthy (p_command p)"
    | (query) c where "\<not> truthy (p_state p)" "p_autostart p = None" "p_command p = Some c"
        "c \<in> set QUERY_COMMANDS"
    using assms(1) by (cases "p_state p") auto
  then show ?thesis
  proof cases
    case override
    then have "core d p = bind (Virt_list_vms d (p_uri p) (p_state p)) (\<lambda>r.
          return (VIRT_SUCCESS, wrap ''list_vms'' (VList (map VStr r))))"
      by (simp add: core_def autostart_check_def)
    then have "adds ?P (core d p)"
      by (simp only:) (intro adds_bind adds_return adds_list_vms quiet_not_mutating)
    then show ?thesis by (rule run_no_mutations)
  next
    case query
    then have c: "c \<noteq> []" by (auto simp: QUERY_COMMANDS_def)
    have "core d p = bind (case p_autostart p of None \<Rightarrow> return []
            | Some a \<Rightarrow> if c \<noteq> ''define''
                        then core_autostart d (p_uri p) (p_name p) a [] else return [])
        (core_command d p c)"
      using query c by (intro core_command_mode) simp_all
    then have "adds ?P (core d p)"
      using query(2)
      by (simp only: option.case)
         (intro adds_bind adds_return adds_query_command quiet_not_mutating query(4))
    then show ?thesis by (rule run_no_mutations)
  next
    case only
    show ?thesis
    proof (cases "p_autostart p")
      case None
      then show ?thesis using assms(2) only
        by (simp add: run_def core_autostart_only fail_json_def raise_def)
    next
      case (Some a)
      let ?A = "core_autostart d (p_uri p) (p_name p) a []"
      have core: "core d p = bind ?A (\<lambda>res. return (VIRT_SUCCESS, res))"
        using only Some by (simp add: core_autostart_only)
      obtain r0 s0 where a: "?A (init_state w) = (r0, s0)" by (cases "?A (init_state w)")
      from assms(2) a have r0: "r0 = Inr res" and s0: "snd (run d p w) = s0"
        by (cases r0; simp add: run_def core bind_def return_def)+
      from hoareD[OF hoare_core_autostart init a] r0 assms(3)
      have "mutations (trace s0) = []" by auto
      then show ?thesis using s0 by simp
    qed
  next
    case state
    let ?A = "case p_autostart p of
             None \<Rightarrow> return []
           | Some a \<Rightarrow> if p_command p \<noteq> Some ''define''
                       then core_autostart d (p_uri p) (p_name p) a [] else return []"
    have core: "core d p = bind ?A (core_state d (p_uri p) st (p_name p))"
      using state by (rule core_state_shape)
    obtain r0 s0 where a: "?A (init_state w) = (r0, s0)" by (cases "?A (init_state w)")
    from assms(2) a obtain res0 where r0: "r0 = Inr res0"
      by (cases r0) (simp_all add: run_def core bind_def)
    obtain s1 where k: "core_state d (p_uri p) st (p_name p) res0 s0 = (Inr (rc, res), s1)"
      and s1: "snd (run d p w) = s1"
      using assms(2) a r0
      by (cases "core_state d (p_uri p) st (p_name p) res0 s0") (simp add: run_def core bind_def)
    from hoareD[OF hoare_autostart_block init a] r0
    have m0: "\<not> changed res0 \<longrightarrow> mutations (trace s0) = []" by simp
    from hoareD[OF hoare_core_state[of "mutations (trace s0)"] _ k]
    have "keeps_changed res0 (\<lambda>s. mutations (trace s) = mutations (trace s0)) (Inr (rc, res)) s1"
      by simp
    then have "\<not> changed res0" "mutations (trace s1) = mutations (trace s0)"
      using assms(3) by (auto simp: keeps_changed_def)
    then show ?thesis using m0 s1 by simp
  qed
qed

theorem unchanged_means_no_mutation_witness:
  "fst (run hv_driver (no_params\<lparr>p_state := Some ''running'', p_name := Some ''alpha''\<rparr>) hv0)
     = Inr (VIRT_SUCCESS, [])
   \<and> mutations (trace (snd (run hv_driver
         (no_params\<lparr>p_state := Some ''running'', p_name := Some ''alpha''\<rparr>) hv0))) = []"
  using unchanged_means_no_mutation
    [where p = "no_params\<lparr>p_state := Some ''running'', p_name := Some ''alpha''\<rparr>"
       and d = hv_driver and w = hv0 and rc = VIRT_SUCCESS and res = "[]"]
  by (simp add: core_defs monad_defs LibvirtConnection_defs Virt_defs hv_defs Let_def)

section \<open>The desired state\<close>

lemma core_state_check:
  assumes "p_state p = Some st" and "st \<noteq> []" and "p_command p \<noteq> Some ''list_vms''"
  shows "core d p = bind (autostart_check d p) (core_state d (p_uri p) st (p_name p))"
  using assms by (simp add: core_def)






section \<open>The changed flag within one invocation\<close>

text \<open>
  Claim C8.  The code does not keep the flag in command mode.  With \<^verbatim>\<open>autostart=true\<close>
  and \<^verbatim>\<open>command=status\<close> for the guest \<^verbatim>\<open>gamma\<close>, whose autostart flag is off, the
  autostart check issues the set-autostart call and sets \<^verbatim>\<open>changed\<close> to true (line 501);
  then line 601 binds \<^verbatim>\<open>res\<close> to the command's result, and the invocation returns
  \<^verbatim>\<open>{status: shutdown}\<close>, which has no \<^verbatim>\<open>changed\<close> key.
\<close>

theorem changed_dropped_by_command:
  "fst (core_autostart hv_driver ''qemu:///system'' (Some ''gamma'') True [] (init_state hv0))
     = Inr [(''changed'', VBool True)]
   \<and> fst (run hv_driver (no_params\<lparr>p_command := Some ''status'', p_autostart := Some True,
            p_name := Some ''gamma''\<rparr>) hv0)
     = Inr (VIRT_SUCCESS, [(''status'', VStr ''shutdown'')])
   \<and> \<not> changed [(''status'', VStr ''shutdown'')]
   \<and> mutations (trace (snd (run hv_driver (no_params\<lparr>p_command := Some ''status'',
            p_autostart := Some True, p_name := Some ''gamma''\<rparr>) hv0)))
     = [SetAutostart ''gamma'' True]"
  by (simp add: core_defs monad_defs LibvirtConnection_defs Virt_defs hv_defs changed_def Let_def)

text \<open>
  Where the flag is kept.  The status transition never resets or drops a \<^verbatim>\<open>changed\<close> that
  is true when it starts; and in an invocation that gives a desired state, or neither a
  state nor a command, once the autostart check has set \<^verbatim>\<open>changed\<close> to true the returned
  result has \<^verbatim>\<open>changed\<close> true.
\<close>

theorem changed_never_reset:
  fixes d :: "('w, 'h) driver"
  shows "(fst (core_state d uri st guest res s) = Inr (rc, res') \<and> changed res \<longrightarrow> changed res')
     \<and> (p_autostart p = Some a \<and> p_command p \<noteq> Some ''define''
          \<and> (truthy (p_state p) \<or> \<not> truthy (p_command p))
          \<and> \<not> (truthy (p_state p) \<and> p_command p = Some ''list_vms'')
          \<and> fst (core_autostart d (p_uri p) (p_name p) a [] (init_state w)) = Inr resa
          \<and> changed resa
          \<and> fst (run d p w) = Inr (rcf, resf) \<longrightarrow> changed resf)"
proof (intro conjI impI)
  assume h: "fst (core_state d uri st guest res s) = Inr (rc, res') \<and> changed res"
  obtain s1 where k: "core_state d uri st guest res s = (Inr (rc, res'), s1)"
    using h by (cases "core_state d uri st guest res s") simp
  from hoareD[OF hoare_core_state[of "mutations (trace s)"] _ k] h
  show "changed res'" by (simp add: keeps_changed_def)
next
  assume h: "p_autostart p = Some a \<and> p_command p \<noteq> Some ''define''
          \<and> (truthy (p_state p) \<or> \<not> truthy (p_command p))
          \<and> \<not> (truthy (p_state p) \<and> p_command p = Some ''list_vms'')
          \<and> fst (core_autostart d (p_uri p) (p_name p) a [] (init_state w)) = Inr resa
          \<and> changed resa
          \<and> fst (run d p w) = Inr (rcf, resf)"
  let ?A = "core_autostart d (p_uri p) (p_name p) a []"
  obtain s0 where a: "?A (init_state w) = (Inr resa, s0)"
    using h by (cases "?A (init_state w)") simp
  show "changed resf"
  proof (cases "truthy (p_state p)")
    case False
    then have "core d p = bind ?A (\<lambda>res. return (VIRT_SUCCESS, res))"
      using h by (simp add: core_autostart_only)
    then have "resf = resa" using h a by (simp add: run_def bind_def return_def)
    then show ?thesis using h by simp
  next
    case True
    then obtain st where st: "p_state p = Some st" "st \<noteq> []" by (cases "p_state p") simp_all
    have core: "core d p = bind ?A (core_state d (p_uri p) st (p_name p))"
      using core_state_shape[of p st d] st h True by simp
    obtain s1 where k: "core_state d (p_uri p) st (p_name p) resa s0 = (Inr (rcf, resf), s1)"
      using h a
      by (cases "core_state d (p_uri p) st (p_name p) resa s0") (simp add: run_def core bind_def)
    from hoareD[OF hoare_core_state[of "mutations (trace s0)"] _ k] h
    show ?thesis by (simp add: keeps_changed_def)
  qed
qed

theorem changed_never_reset_witness:
  "fst (core_autostart hv_driver ''qemu:///system'' (Some ''gamma'') True [] (init_state hv0))
     = Inr [(''changed'', VBool True)]
   \<and> fst (run hv_driver (no_params\<lparr>p_state := Some ''shutdown'', p_autostart := Some True,
            p_name := Some ''gamma''\<rparr>) hv0)
     = Inr (VIRT_SUCCESS, [(''changed'', VBool True)])
   \<and> changed [(''changed'', VBool True)]"
  using changed_never_reset
    [where p = "no_params\<lparr>p_state := Some ''shutdown'', p_autostart := Some True,
            p_name := Some ''gamma''\<rparr>"
       and d = hv_driver and w = hv0 and a = True and resa = "[(''changed'', VBool True)]"
       and rcf = VIRT_SUCCESS and resf = "[(''changed'', VBool True)]"
       and uri = "''qemu:///system''" and st = "''shutdown''" and guest = "Some ''gamma''"
       and res = "[(''changed'', VBool True)]" and s = "init_state hv0"
       and rc = VIRT_SUCCESS and res' = "[(''changed'', VBool True)]"]
  by (simp add: core_defs monad_defs LibvirtConnection_defs Virt_defs hv_defs Let_def)

text \<open>
  \<^verbatim>\<open>define\<close> keeps the flag as well: once the definition has set \<^verbatim>\<open>changed\<close> to true
  (lines 565 and 567), the autostart step of lines 571-572 returns that result or one
  that has \<^verbatim>\<open>changed\<close> true.
\<close>

lemma define_keeps_changed:
  fixes d :: "('w, 'h) driver"
  assumes "p_command p = Some ''define''" and "\<not> truthy (p_state p)"
    and "p_xml p = Some xml" and "re_search_name xml = Some n"
    and "connects d (p_uri p) w" and "drv_listAllDomains d w = Inr vms"
    and "(find (\<lambda>vm. drv_name d vm = n) vms = Some h
            \<and> drv_XMLDesc d w h VIR_DOMAIN_XML_INACTIVE = Inr old \<and> old \<noteq> []
            \<and> drv_defineXML d w xml = (Inr nd, w')
            \<and> drv_XMLDesc d w' nd VIR_DOMAIN_XML_INACTIVE = Inr new
            \<and> rd = (if old = new then []
                    else [(''changed'', VBool True), (''change_reason'', VStr ''config changed'')]))
         \<or> (find (\<lambda>vm. drv_name d vm = n) vms = None
            \<and> drv_defineXML d w xml = (Inr nd, w')
            \<and> rd = [(''changed'', VBool True), (''created'', VStr (drv_name d nd))])
         \<or> (find (\<lambda>vm. drv_name d vm = n) vms = Some h
            \<and> drv_XMLDesc d w h VIR_DOMAIN_XML_INACTIVE = Inr old
            \<and> drv_defineXML d w xml = (Inl (9, msg), w')
            \<and> rd = [])"
    and "changed rd" and "fst (run d p w) = Inr (rcf, resf)"
  shows "changed resf"
proof -
  from core_define_step[OF assms(4-7), of "p_name p" "p_autostart p"]
  obtain s where
    cd: "core_define d (p_uri p) (Some xml) (p_name p) (p_autostart p) [] (init_state w)
             = (case p_autostart p of
                  None \<Rightarrow> return rd
                | Some a \<Rightarrow>
                    bind (Virt_autostart d (p_uri p) n a) (\<lambda>b.
                      if b then return [(''changed'', VBool True),
                                        (''change_reason'', VStr ''autostart'')]
                      else return rd)) s"
    by blast
  have r: "run d p w = bind (\<lambda>_. core_define d (p_uri p) (Some xml) (p_name p) (p_autostart p) []
                                   (init_state w))
                         (\<lambda>res'. return (VIRT_SUCCESS, res')) s"
    by (simp add: core_define_mode[OF assms(1,2)] assms(3) bind_def)
  show ?thesis
  proof (cases "p_autostart p")
    case None
    then have "resf = rd" using assms(9) unfolding r cd by (simp add: bind_def return_def)
    then show ?thesis using assms(8) by simp
  next
    case (Some a)
    then have "resf = rd \<or> resf = [(''changed'', VBool True), (''change_reason'', VStr ''autostart'')]"
      using assms(9) unfolding r cd
      by (cases "Virt_autostart d (p_uri p) n a s")
         (auto simp: bind_def return_def split: sum.splits if_splits)
    then show ?thesis using assms(8) by (auto simp: changed_def)
  qed
qed


section \<open>The autostart check\<close>

lemma filter_calls_append_none:
  "list_all (\<lambda>e. \<not> event_call Q e) es' \<Longrightarrow>
   filter Q (calls_of (es @ es')) = filter Q (calls_of es)"
proof -
  assume "list_all (\<lambda>e. \<not> event_call Q e) es'"
  then have "filter Q (calls_of es') = []"
    by (induction es' rule: calls_of.induct) simp_all
  then show ?thesis by simp
qed

lemma quiet_not_SetAutostart: "quiet (\<lambda>e. \<not> event_call is_SetAutostart e)"
proof -
  have "\<And>x::'a call. \<not> mutating x \<Longrightarrow> \<not> is_SetAutostart x"
    by (case_tac x) simp_all
  then show ?thesis by (simp add: quiet_def)
qed

lemma core_state_no_SetAutostart:
  "adds (\<lambda>e. \<not> event_call is_SetAutostart e) (core_state d uri st guest res)"
  by (rule adds_core_state[OF quiet_not_SetAutostart]) simp_all

lemma adds_undefine:
  "quiet P \<Longrightarrow> (\<And>c h f. P (Call c (UndefineFlags h f))) \<Longrightarrow> adds P (Virt_undefine d uri g flag)"
  unfolding Virt_undefine_def LibvirtConnection_undefine_def quiet_def
  by (auto intro!: adds_intros adds_find_vm)

lemma adds_undefine_flag: "adds P (undefine_flag flags force)"
  unfolding undefine_flag_def
  by (auto intro!: adds_intros split: option.split)

lemma adds_Virt_getattr_guest:
  assumes "quiet P"
    and "\<And>c h. P (Call c (Resume h))" and "\<And>c h. P (Call c (Create h))"
    and "\<And>c h. P (Call c (Shutdown h))" and "\<And>c h. P (Call c (Destroy h))"
    and "\<And>c h. P (Call c (Suspend h))"
  shows "adds P (Virt_getattr_guest d uri cmd g)"
proof -
  note ops = adds_status[OF assms(1)] adds_unpause[OF assms(1)] adds_start[OF assms(1)]
    adds_shutdown[OF assms(1)] adds_destroy[OF assms(1)] adds_pause[OF assms(1)]
    adds_create[OF assms(1)] adds_get_xml[OF assms(1)]
  show ?thesis
    unfolding Virt_getattr_guest_def
    by (intro adds_if adds_bind adds_return adds_raise ops assms)
qed

text \<open>A command other than \<^verbatim>\<open>define\<close> issues no call that defines a domain or sets autostart.\<close>

lemma adds_core_command:
  assumes "quiet P"
    and "\<And>c h. P (Call c (Resume h))" and "\<And>c h. P (Call c (Create h))"
    and "\<And>c h. P (Call c (Shutdown h))" and "\<And>c h. P (Call c (Destroy h))"
    and "\<And>c h. P (Call c (Suspend h))" and "\<And>c h f. P (Call c (UndefineFlags h f))"
    and "cmd \<noteq> ''define''"
  shows "adds P (core_command d p cmd res)"
proof -
  have host: "adds P (bind (Virt_hasattr d cmd) (\<lambda>h. if h
      then bind (Virt_getattr0 d (p_uri p) cmd) (\<lambda>r. return (VIRT_SUCCESS, wrap cmd r))
      else fail_json (''Command '' @ cmd @ '' not recognized'')))"
    by (intro adds_bind adds_Virt_hasattr adds_if adds_Virt_getattr0[OF assms(1)] adds_return
        adds_fail_json)
  have guest: "adds P (bind (Virt_getattr_guest d (p_uri p) cmd g)
                         (\<lambda>r. return (VIRT_SUCCESS, wrap cmd r)))" for g
    by (intro adds_bind adds_return adds_Virt_getattr_guest assms(1-6))
  have undef: "adds P (bind (undefine_flag (p_flags p) (p_force p)) (\<lambda>flag.
                  bind (Virt_undefine d (p_uri p) g flag) (\<lambda>r.
                    return (VIRT_SUCCESS, wrap ''undefine'' (VInt r)))))" for g
    by (intro adds_bind adds_return adds_undefine_flag adds_undefine assms(1,7))
  show ?thesis
    using assms(8) host guest undef
    by (cases "p_name p") (simp_all add: core_command_def adds_fail_json)
qed

lemma core_command_check:
  assumes "p_command p = Some cmd" and "cmd \<noteq> []" and "\<not> truthy (p_state p)"
  shows "core d p = bind (autostart_check d p) (core_command d p cmd)"
proof -
  have st: "p_state p = None \<or> p_state p = Some []"
    using assms(3) by (cases "p_state p") simp_all
  show ?thesis using st assms(1,2) by (auto simp: core_def)
qed

lemma core_autostart_check:
  assumes "\<not> truthy (p_state p)" and "\<not> truthy (p_command p)" and "p_autostart p = Some a"
  shows "core d p = bind (autostart_check d p) (\<lambda>res. return (VIRT_SUCCESS, res))"
proof -
  have st: "p_state p = None \<or> p_state p = Some []"
    using assms(1) by (cases "p_state p") simp_all
  have cm: "p_command p = None \<or> p_command p = Some []"
    using assms(2) by (cases "p_command p") simp_all
  show ?thesis using st cm assms(3) by (auto simp: core_def)
qed

text \<open>The autostart check on a guest that is found, whose autostart flag is \<open>cur\<close>.\<close>

lemma core_autostart_eval:
  assumes "g \<noteq> []" and "connects d uri (world s)"
    and "drv_listAllDomains d (world s) = Inr vms"
    and "find (\<lambda>vm. drv_name d vm = g) vms = Some h"
    and "drv_lookupByName d (world s) g = Inr h'"
    and "drv_autostart d (world s) h' = Inr cur"
  shows "fst (core_autostart d uri (Some g) a res s)
       = (if cur = a then Inr (AList.update ''changed'' (VBool False) res)
          else map_sum id (\<lambda>_. AList.update ''changed'' (VBool True) res)
                 (lv_result (fst (drv_setAutostart d (world s) h' a))))
     \<and> filter is_SetAutostart (calls_of (trace (snd (core_autostart d uri (Some g) a res s))))
       = filter is_SetAutostart (calls_of (trace s))
           @ (if cur = a then [] else [SetAutostart h' a])
     \<and> world (snd (core_autostart d uri (Some g) a res s))
       = (if cur = a then world s else snd (drv_setAutostart d (world s) h' a))"
  using assms
  by (cases "fst (drv_setAutostart d (world s) h' a)")
     (simp_all add: core_autostart_def Virt_get_vm_def Virt_autostart_def
      LibvirtConnection_find_vm_def LibvirtConnection_get_autostart_def
      LibvirtConnection_set_autostart_def LibvirtConnection_init_def get_conn_def self_conn_def
      return_def raise_def bind_def try_except_def query_def command_eval connects_def Let_def
      lv_result_def split: prod.split)

text \<open>What follows the autostart check issues no set-autostart call.\<close>

lemma SetAutostart_after_check:
  fixes d :: "('w, 'h) driver"
  assumes "core d p = bind (autostart_check d p) K"
    and "\<And>res. adds (\<lambda>e. \<not> event_call is_SetAutostart e) (K res)"
  shows "filter is_SetAutostart (calls_of (trace (snd (run d p w))))
       = filter is_SetAutostart (calls_of (trace (snd (autostart_check d p (init_state w)))))"
proof -
  obtain ra sa where a: "autostart_check d p (init_state w) = (ra, sa)"
    by (cases "autostart_check d p (init_state w)")
  show ?thesis
  proof (cases ra)
    case (Inl e)
    then show ?thesis using a by (simp add: run_def assms(1) bind_def)
  next
    case (Inr resa)
    from assms(2)[of resa] obtain es where es: "trace (snd (K resa sa)) = trace sa @ es"
      "list_all (\<lambda>e. \<not> event_call is_SetAutostart e) es"
      unfolding adds_def by blast
    have "run d p w = K resa sa" using a Inr by (simp add: run_def assms(1) bind_def)
    then show ?thesis using a es by (simp only: filter_calls_append_none snd_conv)
  qed
qed

lemma command_no_SetAutostart:
  "cmd \<noteq> ''define'' \<Longrightarrow> adds (\<lambda>e. \<not> event_call is_SetAutostart e) (core_command d p cmd res)"
  by (rule adds_core_command[OF quiet_not_SetAutostart]) simp_all

text \<open>
  The autostart check, in every invocation that reaches it.  An invocation with an
  autostart flag \<open>a\<close> and a command other than \<^verbatim>\<open>define\<close>, for a guest that is found and
  whose current autostart flag is \<open>cur\<close>.  When \<open>cur = a\<close> no set-autostart call is issued
  in the whole invocation, the hypervisor is as it was after the check, and the check
  contributes \<^verbatim>\<open>changed\<close> false.  When they differ exactly one set-autostart call is
  issued in the whole invocation, whatever state or command follows, the check leaves
  the hypervisor as the driver's set-autostart leaves it, and it contributes \<^verbatim>\<open>changed\<close>
  true when the driver carries the call out (the driver's error otherwise).  With a
  desired state, or with neither state nor command, every result the invocation returns
  after a differing flag has \<^verbatim>\<open>changed\<close> true; with neither, the result of the check is
  the result of the invocation.
\<close>

theorem autostart_idempotent:
  fixes d :: "('w, 'h) driver"
  assumes au: "p_autostart p = Some a" and g: "p_name p = Some g" "g \<noteq> []"
    and nd: "p_command p \<noteq> Some ''define''"
    and nl: "\<not> (truthy (p_state p) \<and> p_command p = Some ''list_vms'')"
    and c: "connects d (p_uri p) w" and l: "drv_listAllDomains d w = Inr vms"
    and f: "find (\<lambda>vm. drv_name d vm = g) vms = Some h"
    and lk: "drv_lookupByName d w g = Inr h'" and cur: "drv_autostart d w h' = Inr cur"
  shows "filter is_SetAutostart (calls_of (trace (snd (run d p w))))
       = (if cur = a then [] else [SetAutostart h' a])
     \<and> fst (autostart_check d p (init_state w))
       = (if cur = a then Inr [(''changed'', VBool False)]
          else map_sum id (\<lambda>_. [(''changed'', VBool True)])
                 (lv_result (fst (drv_setAutostart d w h' a))))
     \<and> world (snd (autostart_check d p (init_state w)))
       = (if cur = a then w else snd (drv_setAutostart d w h' a))
     \<and> ((truthy (p_state p) \<or> \<not> truthy (p_command p)) \<and> cur \<noteq> a \<longrightarrow>
          (\<forall>rc res. fst (run d p w) = Inr (rc, res) \<longrightarrow> changed res))
     \<and> (\<not> truthy (p_state p) \<and> \<not> truthy (p_command p) \<longrightarrow>
          fst (run d p w)
            = map_sum id (Pair VIRT_SUCCESS) (fst (autostart_check d p (init_state w))))"
proof -
  let ?C = "autostart_check d p"
  let ?s = "init_state w :: ('w, 'h) vstate"
  have w: "world ?s = w" "trace ?s = []" by (simp_all add: init_state_def)
  have chk: "?C = core_autostart d (p_uri p) (Some g) a []"
    using au nd g by (simp add: autostart_check_def)
  from core_autostart_eval[of g d "p_uri p" ?s vms h h' cur a "[]", unfolded w] g(2) c l f lk cur
  have ev: "fst (?C ?s)
       = (if cur = a then Inr [(''changed'', VBool False)]
          else map_sum id (\<lambda>_. [(''changed'', VBool True)])
                 (lv_result (fst (drv_setAutostart d w h' a))))"
    and tr: "filter is_SetAutostart (calls_of (trace (snd (?C ?s))))
       = (if cur = a then [] else [SetAutostart h' a])"
    and wd: "world (snd (?C ?s)) = (if cur = a then w else snd (drv_setAutostart d w h' a))"
    unfolding chk by simp_all
  obtain ra sa where a: "?C ?s = (ra, sa)" by (cases "?C ?s")
  have ra: "ra = (if cur = a then Inr [(''changed'', VBool False)]
          else map_sum id (\<lambda>_. [(''changed'', VBool True)])
                 (lv_result (fst (drv_setAutostart d w h' a))))"
    using ev a by simp
  have ra_changed: "changed resa" if "ra = Inr resa" "cur \<noteq> a" for resa
    using ra that by (cases "lv_result (fst (drv_setAutostart d w h' a))") auto
  have count: "filter is_SetAutostart (calls_of (trace (snd (run d p w))))
       = (if cur = a then [] else [SetAutostart h' a])"
  proof (cases "truthy (p_state p)")
    case True
    then obtain st where st: "p_state p = Some st" "st \<noteq> []" by (cases "p_state p") simp_all
    have "p_command p \<noteq> Some ''list_vms''" using nl True by simp
    from SetAutostart_after_check[where d = d and w = w, OF core_state_check[OF st this] core_state_no_SetAutostart]
    show ?thesis using tr by simp
  next
    case False
    show ?thesis
    proof (cases "truthy (p_command p)")
      case True
      then obtain cmd where cmd: "p_command p = Some cmd" "cmd \<noteq> []"
        by (cases "p_command p") simp_all
      then have "cmd \<noteq> ''define''" using nd by simp
      from SetAutostart_after_check[where d = d and w = w, OF core_command_check[OF cmd False]
          command_no_SetAutostart[OF this]]
      show ?thesis using tr by simp
    next
      case nc: False
      from SetAutostart_after_check[where d = d and w = w, OF core_autostart_check[OF False nc au] adds_return]
      show ?thesis using tr by simp
    qed
  qed
  have only: "run d p w = (map_sum id (Pair VIRT_SUCCESS) (fst (?C ?s)), snd (?C ?s))"
    if "\<not> truthy (p_state p)" "\<not> truthy (p_command p)"
    using a by (cases ra) (simp_all add: run_def core_autostart_check[OF that au] bind_def return_def)
  have ch: "changed res"
    if m: "truthy (p_state p) \<or> \<not> truthy (p_command p)" and ne: "cur \<noteq> a"
      and r: "fst (run d p w) = Inr (rc, res)" for rc res
  proof (cases "truthy (p_state p)")
    case False
    then have "ra = Inr res" using only[OF False] m r a by (cases ra) simp_all
    then show ?thesis using ne by (rule ra_changed)
  next
    case True
    then obtain st where st: "p_state p = Some st" "st \<noteq> []" by (cases "p_state p") simp_all
    have ncl: "p_command p \<noteq> Some ''list_vms''" using nl True by simp
    have core: "core d p = bind ?C (core_state d (p_uri p) st (p_name p))"
      by (rule core_state_check[OF st ncl])
    show ?thesis
    proof (cases ra)
      case (Inl e)
      then have "run d p w = (Inl e, sa)" using a by (simp add: run_def core bind_def)
      then show ?thesis using r by simp
    next
      case (Inr resa)
      let ?K = "core_state d (p_uri p) st (p_name p) resa"
      obtain sk where k: "?K sa = (Inr (rc, res), sk)"
        using a Inr r by (cases "?K sa") (simp add: run_def core bind_def)
      from hoareD[OF hoare_core_state[where t = "mutations (trace sa)"] _ k]
      have "changed resa \<longrightarrow> changed res" by (simp add: keeps_changed_def)
      then show ?thesis using ra_changed[OF Inr ne] by simp
    qed
  qed
  have only': "fst (run d p w) = map_sum id (Pair VIRT_SUCCESS) (fst (?C ?s))"
    if "\<not> truthy (p_state p)" "\<not> truthy (p_command p)"
    using only[OF that] by simp
  show ?thesis
    using count ev wd ch only' by blast
qed

theorem autostart_idempotent_witness:
  "filter is_SetAutostart (calls_of (trace (snd (run hv_driver
       (no_params\<lparr>p_state := Some ''running'', p_autostart := Some True,
          p_name := Some ''gamma''\<rparr>) hv0))))
     = [SetAutostart ''gamma'' True]
   \<and> fst (run hv_driver
       (no_params\<lparr>p_state := Some ''running'', p_autostart := Some True,
          p_name := Some ''gamma''\<rparr>) hv0)
     = Inr (VIRT_SUCCESS, [(''changed'', VBool True), (''msg'', VInt 0)])
   \<and> changed [(''changed'', VBool True), (''msg'', VInt 0)]
   \<and> world (snd (autostart_check hv_driver
       (no_params\<lparr>p_state := Some ''running'', p_autostart := Some True,
          p_name := Some ''gamma''\<rparr>) (init_state hv0)))
     = snd (drv_setAutostart hv_driver hv0 ''gamma'' True)
   \<and> filter is_SetAutostart (calls_of (trace (snd (run hv_driver
       (no_params\<lparr>p_command := Some ''shutdown'', p_autostart := Some True,
          p_name := Some ''gamma''\<rparr>) hv0))))
     = [SetAutostart ''gamma'' True]
   \<and> filter is_SetAutostart (calls_of (trace (snd (run hv_driver
       (no_params\<lparr>p_autostart := Some True, p_name := Some ''beta''\<rparr>) hv0)))) = []
   \<and> fst (run hv_driver (no_params\<lparr>p_autostart := Some True, p_name := Some ''beta''\<rparr>) hv0)
     = Inr (VIRT_SUCCESS, [(''changed'', VBool False)])"
proof -
  have c: "connects hv_driver ''qemu:///system'' hv0"
    by (simp add: connects_def hv_driver_def)
  have l: "drv_listAllDomains hv_driver hv0 = Inr (map dom_name hv0)"
    by (simp add: hv_driver_def)
  have fg: "find (\<lambda>vm. drv_name hv_driver vm = ''gamma'') (map dom_name hv0) = Some ''gamma''"
    and fb: "find (\<lambda>vm. drv_name hv_driver vm = ''beta'') (map dom_name hv0) = Some ''beta''"
    by (simp_all add: hv_driver_def hv0_def mk_dom_def)
  have lg: "drv_lookupByName hv_driver hv0 ''gamma'' = Inr ''gamma''"
    and lb: "drv_lookupByName hv_driver hv0 ''beta'' = Inr ''beta''"
    and ag: "drv_autostart hv_driver hv0 ''gamma'' = Inr False"
    and ab: "drv_autostart hv_driver hv0 ''beta'' = Inr True"
    by (simp_all add: hv_driver_def hv0_def mk_dom_def hv_read_def hv_find_def)
  have ev: "fst (run hv_driver
       (no_params\<lparr>p_state := Some ''running'', p_autostart := Some True,
          p_name := Some ''gamma''\<rparr>) hv0)
     = Inr (VIRT_SUCCESS, [(''changed'', VBool True), (''msg'', VInt 0)])"
    by (simp add: core_defs monad_defs LibvirtConnection_defs Virt_defs hv_defs Let_def)
  have "filter is_SetAutostart (calls_of (trace (snd (run hv_driver
       (no_params\<lparr>p_state := Some ''running'', p_autostart := Some True,
          p_name := Some ''gamma''\<rparr>) hv0))))
     = [SetAutostart ''gamma'' True]
   \<and> changed [(''changed'', VBool True), (''msg'', VInt 0)]
   \<and> world (snd (autostart_check hv_driver
       (no_params\<lparr>p_state := Some ''running'', p_autostart := Some True,
          p_name := Some ''gamma''\<rparr>) (init_state hv0)))
     = snd (drv_setAutostart hv_driver hv0 ''gamma'' True)"
    using ev autostart_idempotent
      [where p = "no_params\<lparr>p_state := Some ''running'', p_autostart := Some True,
                    p_name := Some ''gamma''\<rparr>"
         and a = True and g = "''gamma''" and d = hv_driver and w = hv0
         and vms = "map dom_name hv0" and h = "''gamma''" and h' = "''gamma''" and cur = False]
      c l fg lg ag
    by (simp add: no_params_def)
  moreover have "filter is_SetAutostart (calls_of (trace (snd (run hv_driver
       (no_params\<lparr>p_command := Some ''shutdown'', p_autostart := Some True,
          p_name := Some ''gamma''\<rparr>) hv0))))
     = [SetAutostart ''gamma'' True]"
    using autostart_idempotent
      [where p = "no_params\<lparr>p_command := Some ''shutdown'', p_autostart := Some True,
                    p_name := Some ''gamma''\<rparr>"
         and a = True and g = "''gamma''" and d = hv_driver and w = hv0
         and vms = "map dom_name hv0" and h = "''gamma''" and h' = "''gamma''" and cur = False]
      c l fg lg ag
    by (simp add: no_params_def)
  moreover have "filter is_SetAutostart (calls_of (trace (snd (run hv_driver
       (no_params\<lparr>p_autostart := Some True, p_name := Some ''beta''\<rparr>) hv0)))) = []
   \<and> fst (run hv_driver (no_params\<lparr>p_autostart := Some True, p_name := Some ''beta''\<rparr>) hv0)
     = Inr (VIRT_SUCCESS, [(''changed'', VBool False)])"
    using autostart_idempotent
      [where p = "no_params\<lparr>p_autostart := Some True, p_name := Some ''beta''\<rparr>"
         and a = True and g = "''beta''" and d = hv_driver and w = hv0
         and vms = "map dom_name hv0" and h = "''beta''" and h' = "''beta''" and cur = True]
      c l fb lb ab
    by (simp add: no_params_def)
  ultimately show ?thesis using ev by simp
qed

text \<open>
  Claim C7.  The code does not report the change in command mode.  With
  \<^verbatim>\<open>autostart=true\<close> and \<^verbatim>\<open>command=get_xml\<close> for the guest \<^verbatim>\<open>alpha\<close>, whose autostart flag
  is off, the autostart check issues the one set-autostart call, which the driver
  carries out, and contributes \<^verbatim>\<open>changed\<close> true; the invocation then returns the
  command's result \<^verbatim>\<open>{get_xml: ...}\<close>, which has no \<^verbatim>\<open>changed\<close> key, so no change is
  reported.
\<close>

theorem autostart_change_not_reported:
  "drv_autostart hv_driver hv0 ''alpha'' = Inr False
   \<and> fst (autostart_check hv_driver (no_params\<lparr>p_command := Some ''get_xml'',
            p_autostart := Some True, p_name := Some ''alpha''\<rparr>) (init_state hv0))
     = Inr [(''changed'', VBool True)]
   \<and> filter is_SetAutostart (calls_of (trace (snd (run hv_driver
         (no_params\<lparr>p_command := Some ''get_xml'', p_autostart := Some True,
            p_name := Some ''alpha''\<rparr>) hv0))))
     = [SetAutostart ''alpha'' True]
   \<and> drv_autostart hv_driver (world (snd (run hv_driver
         (no_params\<lparr>p_command := Some ''get_xml'', p_autostart := Some True,
            p_name := Some ''alpha''\<rparr>) hv0))) ''alpha'' = Inr True
   \<and> fst (run hv_driver (no_params\<lparr>p_command := Some ''get_xml'', p_autostart := Some True,
            p_name := Some ''alpha''\<rparr>) hv0)
     = Inr (VIRT_SUCCESS, [(''get_xml'', VStr ''<domain><name>alpha</name></domain>'')])
   \<and> \<not> changed [(''get_xml'', VStr ''<domain><name>alpha</name></domain>'')]"
  by (simp add: core_defs monad_defs LibvirtConnection_defs Virt_defs hv_defs changed_def Let_def)


section \<open>Connections\<close>

lemma opened_append [simp]: "opened (es @ es') = opened es + opened es'"
  by (induction es rule: opened.induct) simp_all

lemma on_latest_from_append [simp]:
  "on_latest_from n (es @ es') = (on_latest_from n es \<and> on_latest_from (n + opened es) es')"
  by (induction n es rule: on_latest_from.induct) simp_all




















































end
